theory Spec2Isabelle
  imports Complex_Main "HOL-Library.Log_Nat"
begin

unbundle bit_operations_syntax

section \<open>Python values, exceptions and double-precision arithmetic\<close>

text \<open>
  The bridge is the single module \<^verbatim>\<open>mavlink_interface.py\<close>. Its methods mutate one
  \<^verbatim>\<open>MavlinkInterface\<close> object; the model passes that object explicitly. A method that can
  raise returns the exception together with the object as it was mutated up to the raise,
  because Python does not roll attributes back.
\<close>

datatype py_error =
    KeyError string
  | IndexError
  | TypeError
  | OverflowError
  | ValueError
  | ZeroDivisionError
  | AttributeError
  | RuntimeError
  | ConnectionError
  | SendError

text \<open>
  What a call can do: return, raise (with the state reached so far), or not return at
  all (a spin loop or a blocking receive that is never released).
\<close>

datatype 'a outcome = Done 'a | Raised py_error 'a | NoReturn

text \<open>
  The values a sensor dictionary holds: a float or a sequence of floats. A finite double
  is a rational number, written here as a \<^typ>\<open>real\<close>.
\<close>

datatype pyval = Num real | Vec "real list"

type_synonym dict = "string \<Rightarrow> pyval option"

text \<open>
  IEEE-754 binary64 rounding (round to nearest, ties to even) of an exact result:
  \<open>ilog2 q\<close> is the binary exponent of a positive \<open>q\<close>, the significand keeps 53 bits,
  the exponent is not allowed under \<open>-1074\<close> (subnormals) and a result of \<open>2^1024\<close> or more
  is an overflow to infinity, written \<open>None\<close>.
\<close>

definition ilog2 :: "real \<Rightarrow> int" where
  "ilog2 q = (if 1 \<le> q then bitlen \<lfloor>q\<rfloor> - 1 else - bitlen (\<lceil>1 / q\<rceil> - 1))"

definition round_half_even :: "real \<Rightarrow> int" where
  "round_half_even q = (let f = \<lfloor>q\<rfloor>; r = q - of_int f in
      if r < 1 / 2 then f else if 1 / 2 < r then f + 1 else if even f then f else f + 1)"

definition round_double :: "real \<Rightarrow> real option" where
  "round_double q = (if q = 0 then Some 0 else
      let a = \<bar>q\<bar>; e = max (ilog2 a - 52) (- 1074);
          r = of_int (round_half_even (a / 2 powi e)) * 2 powi e
      in if 2 powi 1024 \<le> r then None else Some (sgn q * r))"

text \<open>\<^verbatim>\<open>int(x)\<close> on a finite float truncates toward zero.\<close>

definition py_int :: "real \<Rightarrow> int" where
  "py_int x = (if 0 \<le> x then \<lfloor>x\<rfloor> else \<lceil>x\<rceil>)"

text \<open>\<^verbatim>\<open>data[k]\<close>: a missing key raises KeyError.\<close>

definition get_item :: "dict \<Rightarrow> string \<Rightarrow> py_error + pyval" where
  "get_item d k = (case d k of None \<Rightarrow> Inl (KeyError k) | Some v \<Rightarrow> Inr v)"

text \<open>\<^verbatim>\<open>data[k][i]\<close>: a float is not subscriptable, a short sequence raises IndexError.\<close>

definition item_at :: "dict \<Rightarrow> string \<Rightarrow> nat \<Rightarrow> py_error + real" where
  "item_at d k i =
     (case d k of
        None \<Rightarrow> Inl (KeyError k)
      | Some (Num x) \<Rightarrow> Inl TypeError
      | Some (Vec xs) \<Rightarrow> (if i < length xs then Inr (xs ! i) else Inl IndexError))"

text \<open>\<^verbatim>\<open>int(data[k])\<close>.\<close>

definition plain_int :: "dict \<Rightarrow> string \<Rightarrow> py_error + int" where
  "plain_int d k =
     (case d k of
        None \<Rightarrow> Inl (KeyError k)
      | Some (Vec xs) \<Rightarrow> Inl TypeError
      | Some (Num x) \<Rightarrow> Inr (py_int x))"

text \<open>
  \<^verbatim>\<open>int(data[k] * c)\<close> for an integer literal \<open>c\<close>: the product is a double (the exact
  product, rounded), and \<^verbatim>\<open>int\<close> of an infinite product raises OverflowError.
\<close>

definition scaled_int :: "dict \<Rightarrow> string \<Rightarrow> int \<Rightarrow> py_error + int" where
  "scaled_int d k c =
     (case d k of
        None \<Rightarrow> Inl (KeyError k)
      | Some (Vec xs) \<Rightarrow> Inl TypeError
      | Some (Num x) \<Rightarrow>
          (case round_double (x * of_int c) of
             None \<Rightarrow> Inl OverflowError
           | Some y \<Rightarrow> Inr (py_int y)))"

text \<open>
  One assignment statement \<^verbatim>\<open>target = rhs\<close> inside a method body: once a statement has
  raised, the statements after it do not run.
\<close>

definition assign ::
  "(py_error + 'v) \<Rightarrow> ('v \<Rightarrow> 'a \<Rightarrow> 'a) \<Rightarrow> py_error option \<times> 'a \<Rightarrow> py_error option \<times> 'a" where
  "assign rhs store r =
     (case r of
        (Some e, m) \<Rightarrow> (Some e, m)
      | (None, m) \<Rightarrow> (case rhs of Inl e \<Rightarrow> (Some e, m) | Inr v \<Rightarrow> (None, store v m)))"

definition run_stmts ::
  "(py_error option \<times> 'a \<Rightarrow> py_error option \<times> 'a) list \<Rightarrow> 'a \<Rightarrow> py_error option \<times> 'a" where
  "run_stmts stmts m = fold (\<lambda>stmt r. stmt r) stmts (None, m)"

section \<open>SensorSource and SensorMsg\<close>

definition ACCEL :: int where "ACCEL = 7"
definition GYRO :: int where "GYRO = 56"
definition MAG :: int where "MAG = 448"
definition BARO :: int where "BARO = 6656"
definition DIFF_PRESS :: int where "DIFF_PRESS = 1024"

text \<open>
  The barometer fields hold whatever the dictionary held (they are stored unconverted);
  the GPS fields hold the integers \<^verbatim>\<open>update_gps_data\<close> computes (their initial values
  \<^verbatim>\<open>-999\<close>, \<^verbatim>\<open>1.0\<close> and \<^verbatim>\<open>0.0\<close> are integral).
\<close>

record sensor_msg =
  new_imu_data :: bool
  xacc :: real
  yacc :: real
  zacc :: real
  xgyro :: real
  ygyro :: real
  zgyro :: real
  new_bar_data :: bool
  abs_pressure :: pyval
  pressure_alt :: pyval
  temperature :: pyval
  new_mag_data :: bool
  xmag :: real
  ymag :: real
  zmag :: real
  new_press_data :: bool
  diff_pressure :: real
  new_gps_data :: bool
  fix_type :: int
  latitude_deg :: int
  longitude_deg :: int
  altitude :: int
  eph :: int
  epv :: int
  velocity :: int
  velocity_north :: int
  velocity_east :: int
  velocity_down :: int
  cog :: int
  satellites_visible :: int

definition SensorMsg :: sensor_msg where
  "SensorMsg =
     \<lparr>new_imu_data = False, xacc = 0, yacc = 0, zacc = 0, xgyro = 0, ygyro = 0, zgyro = 0,
      new_bar_data = False, abs_pressure = Num 0, pressure_alt = Num 0, temperature = Num 0,
      new_mag_data = False, xmag = 0, ymag = 0, zmag = 0,
      new_press_data = False, diff_pressure = 0,
      new_gps_data = False, fix_type = 0, latitude_deg = - 999, longitude_deg = - 999,
      altitude = - 999, eph = 1, epv = 1, velocity = 0, velocity_north = 0,
      velocity_east = 0, velocity_down = 0, cog = 0, satellites_visible = 0\<rparr>"

section \<open>The wire and the interface object\<close>

text \<open>
  \<^verbatim>\<open>mavutil.mavlink_connection\<close> is an external collaborator: each successful call returns
  a new connection object. The world hands out connection identities in order, knows
  which endpoints can be opened, and records the connections that were closed.
\<close>

record mav_conn =
  conn_id :: nat
  conn_endpoint :: string

record world =
  next_conn :: nat
  can_open :: "string \<Rightarrow> bool"
  closed_conns :: "nat list"

definition mavlink_connection :: "string \<Rightarrow> world \<Rightarrow> (mav_conn \<times> world) option" where
  "mavlink_connection port w =
     (if can_open w port
      then Some (\<lparr>conn_id = next_conn w, conn_endpoint = port\<rparr>,
                 w\<lparr>next_conn := Suc (next_conn w)\<rparr>)
      else None)"

text \<open>
  A \<^verbatim>\<open>threading.Thread\<close> object: absent, created, started (\<^verbatim>\<open>start()\<close> was called), or
  joined after its target returned.
\<close>

datatype thread_status = NoThread | Created | Started | Finished

record interface =
  connection_port :: string
  connection :: "mav_conn option"
  update_rate :: real
  is_running :: bool
  GPS_fix_type :: int
  GPS_satellites_visible :: int
  GPS_eph :: int
  GPS_epv :: int
  sensor_data :: sensor_msg
  num_inputs :: nat
  input_reference :: "real list"
  armed :: bool
  input_offset :: "real list"
  input_scaling :: "real list"
  enable_lockstep :: bool
  received_first_imu :: bool
  received_first_actuator :: bool
  received_imu :: bool
  received_actuator :: bool
  received_first_hearbeat :: bool
  last_heartbeat_sent_time :: real
  update_thread :: thread_status
  heartbeat_threads :: nat

text \<open>\<^verbatim>\<open>MavlinkInterface.__init__\<close>; opening the connection can fail.\<close>

definition init_interface ::
  "string \<Rightarrow> nat \<Rightarrow> bool \<Rightarrow> world \<Rightarrow> (interface \<times> world) option" where
  "init_interface port num_thrusters lockstep w =
     (case mavlink_connection port w of
        None \<Rightarrow> None
      | Some (c, w') \<Rightarrow>
          Some (\<lparr>connection_port = port, connection = Some c, update_rate = 250,
                 is_running = False, GPS_fix_type = 3, GPS_satellites_visible = 10,
                 GPS_eph = 1, GPS_epv = 1, sensor_data = SensorMsg,
                 num_inputs = num_thrusters,
                 input_reference = replicate num_thrusters 0, armed = False,
                 input_offset = replicate num_thrusters 0,
                 input_scaling = replicate num_thrusters 0,
                 enable_lockstep = lockstep,
                 received_first_imu = False, received_first_actuator = False,
                 received_imu = False, received_actuator = False,
                 received_first_hearbeat = False, last_heartbeat_sent_time = 0,
                 update_thread = NoThread, heartbeat_threads = 0\<rparr>, w'))"

section \<open>Producer updates\<close>

definition on_sensor_data ::
  "(sensor_msg \<Rightarrow> py_error option \<times> sensor_msg) \<Rightarrow> interface \<Rightarrow> py_error option \<times> interface" where
  "on_sensor_data body s = (case body (sensor_data s) of (e, m) \<Rightarrow> (e, s\<lparr>sensor_data := m\<rparr>))"

definition update_imu_data :: "dict \<Rightarrow> interface \<Rightarrow> py_error option \<times> interface" where
  "update_imu_data d =
     on_sensor_data (run_stmts
       [assign (item_at d ''linear_acceleration'' 0) (\<lambda>v m. m\<lparr>xacc := v\<rparr>),
        assign (item_at d ''linear_acceleration'' 1) (\<lambda>v m. m\<lparr>yacc := v\<rparr>),
        assign (item_at d ''linear_acceleration'' 2) (\<lambda>v m. m\<lparr>zacc := v\<rparr>),
        assign (item_at d ''angular_velocity'' 0) (\<lambda>v m. m\<lparr>xgyro := v\<rparr>),
        assign (item_at d ''angular_velocity'' 1) (\<lambda>v m. m\<lparr>ygyro := v\<rparr>),
        assign (item_at d ''angular_velocity'' 2) (\<lambda>v m. m\<lparr>zgyro := v\<rparr>),
        assign (Inr True) (\<lambda>v m. m\<lparr>new_imu_data := v\<rparr>)])"

definition update_gps_data :: "dict \<Rightarrow> interface \<Rightarrow> py_error option \<times> interface" where
  "update_gps_data d =
     on_sensor_data (run_stmts
       [assign (plain_int d ''fix_type'') (\<lambda>v m. m\<lparr>fix_type := v\<rparr>),
        assign (scaled_int d ''latitude'' 10000000) (\<lambda>v m. m\<lparr>latitude_deg := v\<rparr>),
        assign (scaled_int d ''longitude'' 10000000) (\<lambda>v m. m\<lparr>longitude_deg := v\<rparr>),
        assign (scaled_int d ''altitude'' 1000) (\<lambda>v m. m\<lparr>altitude := v\<rparr>),
        assign (plain_int d ''eph'') (\<lambda>v m. m\<lparr>eph := v\<rparr>),
        assign (plain_int d ''epv'') (\<lambda>v m. m\<lparr>epv := v\<rparr>),
        assign (scaled_int d ''speed'' 100) (\<lambda>v m. m\<lparr>velocity := v\<rparr>),
        assign (scaled_int d ''velocity_north'' 100) (\<lambda>v m. m\<lparr>velocity_north := v\<rparr>),
        assign (scaled_int d ''velocity_east'' 100) (\<lambda>v m. m\<lparr>velocity_east := v\<rparr>),
        assign (scaled_int d ''velocity_down'' 100) (\<lambda>v m. m\<lparr>velocity_down := v\<rparr>),
        assign (scaled_int d ''cog'' 100) (\<lambda>v m. m\<lparr>cog := v\<rparr>),
        assign (plain_int d ''sattelites_visible'') (\<lambda>v m. m\<lparr>satellites_visible := v\<rparr>),
        assign (Inr True) (\<lambda>v m. m\<lparr>new_gps_data := v\<rparr>)])"

definition update_bar_data :: "dict \<Rightarrow> interface \<Rightarrow> py_error option \<times> interface" where
  "update_bar_data d =
     on_sensor_data (run_stmts
       [assign (get_item d ''temperature'') (\<lambda>v m. m\<lparr>temperature := v\<rparr>),
        assign (get_item d ''absolute_pressure'') (\<lambda>v m. m\<lparr>abs_pressure := v\<rparr>),
        assign (get_item d ''pressure_altitude'') (\<lambda>v m. m\<lparr>pressure_alt := v\<rparr>),
        assign (Inr True) (\<lambda>v m. m\<lparr>new_bar_data := v\<rparr>)])"

definition update_mag_data :: "dict \<Rightarrow> interface \<Rightarrow> py_error option \<times> interface" where
  "update_mag_data d =
     on_sensor_data (run_stmts
       [assign (item_at d ''magnetic_field'' 0) (\<lambda>v m. m\<lparr>xmag := v\<rparr>),
        assign (item_at d ''magnetic_field'' 1) (\<lambda>v m. m\<lparr>ymag := v\<rparr>),
        assign (item_at d ''magnetic_field'' 2) (\<lambda>v m. m\<lparr>zmag := v\<rparr>),
        assign (Inr True) (\<lambda>v m. m\<lparr>new_mag_data := v\<rparr>)])"

text \<open>
  Modelled from the spec: a diff-pressure update. The module defines no method that
  writes \<^verbatim>\<open>diff_pressure\<close> or sets \<^verbatim>\<open>new_press_data\<close>; the drain reads both. The update
  follows the pattern the spec gives for the other groups (overwrite the field, set the
  group's dirty flag).
\<close>

definition update_press_data :: "real \<Rightarrow> interface \<Rightarrow> py_error option \<times> interface" where
  "update_press_data v =
     on_sensor_data (run_stmts
       [assign (Inr v) (\<lambda>v m. m\<lparr>diff_pressure := v\<rparr>),
        assign (Inr True) (\<lambda>v m. m\<lparr>new_press_data := v\<rparr>)])"

text \<open>\<^verbatim>\<open>update_imu(imu_data)\<close>: the argument is not used.\<close>

definition update_imu :: "'a \<Rightarrow> interface \<Rightarrow> interface" where
  "update_imu imu_data s = s\<lparr>received_imu := True\<rparr>"

text \<open>A producer's calls between two drains, and the group codes of the calls that returned.\<close>

datatype sensor_update = ImuData dict | MagData dict | BarData dict | PressData real

fun apply_update :: "sensor_update \<Rightarrow> interface \<Rightarrow> py_error option \<times> interface" where
  "apply_update (ImuData d) s = update_imu_data d s"
| "apply_update (MagData d) s = update_mag_data d s"
| "apply_update (BarData d) s = update_bar_data d s"
| "apply_update (PressData v) s = update_press_data v s"

fun group_codes :: "sensor_update \<Rightarrow> int list" where
  "group_codes (ImuData d) = [ACCEL, GYRO]"
| "group_codes (MagData d) = [MAG]"
| "group_codes (BarData d) = [BARO]"
| "group_codes (PressData v) = [DIFF_PRESS]"

fun apply_updates :: "sensor_update list \<Rightarrow> interface \<Rightarrow> interface" where
  "apply_updates [] s = s"
| "apply_updates (u # us) s = apply_updates us (snd (apply_update u s))"

fun touched :: "sensor_update list \<Rightarrow> interface \<Rightarrow> int list" where
  "touched [] s = []"
| "touched (u # us) s =
     (case apply_update u s of
        (None, s') \<Rightarrow> group_codes u @ touched us s'
      | (Some e, s') \<Rightarrow> touched us s')"

definition or_all :: "int list \<Rightarrow> int" where
  "or_all cs = foldr (\<lambda>c acc. c OR acc) cs 0"

text \<open>
  The arguments on which the update methods run to their last statement: the IMU and
  magnetometer methods index each of their keys at 0, 1 and 2, so the key must hold a
  sequence of at least three items; the barometer method only reads its three keys.
\<close>

definition has_vec3 :: "dict \<Rightarrow> string \<Rightarrow> bool" where
  "has_vec3 d k = (case d k of Some (Vec xs) \<Rightarrow> 3 \<le> length xs | _ \<Rightarrow> False)"

fun well_formed :: "sensor_update \<Rightarrow> bool" where
  "well_formed (ImuData d) =
     (has_vec3 d ''linear_acceleration'' \<and> has_vec3 d ''angular_velocity'')"
| "well_formed (MagData d) = has_vec3 d ''magnetic_field''"
| "well_formed (BarData d) =
     (d ''temperature'' \<noteq> None \<and> d ''absolute_pressure'' \<noteq> None
      \<and> d ''pressure_altitude'' \<noteq> None)"
| "well_formed (PressData v) = True"

section \<open>Frames, log and sends\<close>

datatype mav_msg = MavMsg string

record hil_sensor =
  hs_time :: int
  hs_xacc :: real
  hs_yacc :: real
  hs_zacc :: real
  hs_xgyro :: real
  hs_ygyro :: real
  hs_zgyro :: real
  hs_xmag :: real
  hs_ymag :: real
  hs_zmag :: real
  hs_abs_pressure :: pyval
  hs_diff_pressure :: real
  hs_pressure_alt :: pyval
  hs_altitude :: int
  hs_fields_updated :: int

record hil_gps =
  hg_time :: int
  hg_fix_type :: int
  hg_lat :: int
  hg_lon :: int
  hg_alt :: int
  hg_eph :: int
  hg_epv :: int
  hg_vel :: int
  hg_vn :: int
  hg_ve :: int
  hg_vd :: int
  hg_cog :: int
  hg_satellites_visible :: int

text \<open>
  What a call leaves behind for an observer: log lines, receive attempts (blocking or
  not), frames put on the wire, and the sleep at the end of a tick.
\<close>

datatype event =
    LogWarn string
  | LogMsg "mav_msg option"
  | Recv bool
  | HeartbeatSent int int int int int
  | SensorSent hil_sensor
  | GpsSent hil_gps
  | Sleep real

text \<open>Constants of the MAVLink dialect (pymavlink), used by \<^verbatim>\<open>send_heartbeat\<close>.\<close>

definition MAV_TYPE_GENERIC :: int where "MAV_TYPE_GENERIC = 0"
definition MAV_AUTOPILOT_INVALID :: int where "MAV_AUTOPILOT_INVALID = 8"

text \<open>The composition of the bitmask, clearing each dirty flag it consumes.\<close>

definition drain_flags :: "sensor_msg \<Rightarrow> int \<times> sensor_msg" where
  "drain_flags m0 =
     (let fields0 = 0;
          (fields1, m1) = (if new_imu_data m0
             then ((fields0 OR ACCEL) OR GYRO, m0\<lparr>new_imu_data := False\<rparr>) else (fields0, m0));
          (fields2, m2) = (if new_mag_data m1
             then (fields1 OR MAG, m1\<lparr>new_mag_data := False\<rparr>) else (fields1, m1));
          (fields3, m3) = (if new_bar_data m2
             then (fields2 OR BARO, m2\<lparr>new_bar_data := False\<rparr>) else (fields2, m2));
          (fields4, m4) = (if new_press_data m3
             then (fields3 OR DIFF_PRESS, m3\<lparr>new_press_data := False\<rparr>) else (fields3, m3))
      in (fields4, m4))"

text \<open>The arguments of \<^verbatim>\<open>hil_sensor_send\<close>, in the order the source passes them.\<close>

definition hil_sensor_args :: "sensor_msg \<Rightarrow> real \<Rightarrow> int \<Rightarrow> hil_sensor" where
  "hil_sensor_args m now fields_updated =
     \<lparr>hs_time = py_int now,
      hs_xacc = xacc m, hs_yacc = yacc m, hs_zacc = zacc m,
      hs_xgyro = xgyro m, hs_ygyro = ygyro m, hs_zgyro = zgyro m,
      hs_xmag = xmag m, hs_ymag = ymag m, hs_zmag = zmag m,
      hs_abs_pressure = abs_pressure m, hs_diff_pressure = diff_pressure m,
      hs_pressure_alt = pressure_alt m, hs_altitude = altitude m,
      hs_fields_updated = fields_updated\<rparr>"

text \<open>
  \<^verbatim>\<open>send_sensor_msgs\<close>. The send is inside \<^verbatim>\<open>try\<close>/\<^verbatim>\<open>except\<close>: a missing connection or a
  send that raises (\<open>send_ok = False\<close>) ends in the warning, never in an exception.
\<close>

definition send_sensor_msgs :: "interface \<Rightarrow> real \<Rightarrow> bool \<Rightarrow> interface \<times> event list" where
  "send_sensor_msgs s now send_ok =
     (case drain_flags (sensor_data s) of
        (fields_updated, m) \<Rightarrow>
          (s\<lparr>sensor_data := m\<rparr>,
           LogWarn ''Sending sensor msgs'' #
             (if connection s \<noteq> None \<and> send_ok
              then [SensorSent (hil_sensor_args m now fields_updated)]
              else [LogWarn ''Could not send sensor data through mavlink''])))"

definition hil_gps_args :: "sensor_msg \<Rightarrow> real \<Rightarrow> hil_gps" where
  "hil_gps_args m now =
     \<lparr>hg_time = py_int now, hg_fix_type = fix_type m, hg_lat = latitude_deg m,
      hg_lon = longitude_deg m, hg_alt = altitude m, hg_eph = eph m, hg_epv = epv m,
      hg_vel = velocity m, hg_vn = velocity_north m, hg_ve = velocity_east m,
      hg_vd = velocity_down m, hg_cog = cog m,
      hg_satellites_visible = satellites_visible m\<rparr>"

definition send_gps_msgs :: "interface \<Rightarrow> real \<Rightarrow> bool \<Rightarrow> interface \<times> event list" where
  "send_gps_msgs s now send_ok =
     (if \<not> new_gps_data (sensor_data s) then (s, [LogWarn ''Sending GPS msgs''])
      else
        let m = (sensor_data s)\<lparr>new_gps_data := False\<rparr> in
          (s\<lparr>sensor_data := m\<rparr>,
           LogWarn ''Sending GPS msgs'' #
             (if connection s \<noteq> None \<and> send_ok
              then [GpsSent (hil_gps_args m now)]
              else [LogWarn ''Could not send gps data through mavlink''])))"

text \<open>\<^verbatim>\<open>send_heartbeat\<close>: the send is not guarded, so a failure propagates.\<close>

definition send_heartbeat :: "interface \<Rightarrow> bool \<Rightarrow> event list outcome" where
  "send_heartbeat s send_ok =
     (if connection s = None then Raised AttributeError [LogWarn ''Sending heartbeat'']
      else if \<not> send_ok then Raised SendError [LogWarn ''Sending heartbeat'']
      else Done [LogWarn ''Sending heartbeat'',
                 HeartbeatSent MAV_TYPE_GENERIC MAV_AUTOPILOT_INVALID 0 0 0])"

section \<open>The scheduler tick\<close>

text \<open>
  The spin loop of the lockstep gate reads \<^verbatim>\<open>_received_imu\<close> and \<^verbatim>\<open>_is_running\<close>, which
  other threads write. Between two evaluations of the loop condition another thread may
  do nothing, call \<^verbatim>\<open>update_imu\<close>, or execute the assignment \<^verbatim>\<open>_is_running = False\<close> of
  \<^verbatim>\<open>stop_stream\<close>. A finite schedule that ends with the loop still spinning gives \<open>None\<close>.
\<close>

datatype env_action = Idle | ProducerImu | StopSignal

fun env_step :: "env_action \<Rightarrow> interface \<Rightarrow> interface" where
  "env_step Idle s = s"
| "env_step ProducerImu s = update_imu () s"
| "env_step StopSignal s = s\<lparr>is_running := False\<rparr>"

fun spin_wait :: "interface \<Rightarrow> env_action list \<Rightarrow> interface option" where
  "spin_wait s [] = (if \<not> received_imu s \<and> is_running s then None else Some s)"
| "spin_wait s (a # as) =
     (if \<not> received_imu s \<and> is_running s then spin_wait (env_step a s) as else Some s)"

definition lockstep_gate :: "interface \<Rightarrow> env_action list \<Rightarrow> interface option" where
  "lockstep_gate s sched = (if received_first_imu s then spin_wait s sched else Some s)"

text \<open>
  The do-while loop of \<^verbatim>\<open>poll_mavlink_messages\<close> over the messages that will arrive. A
  blocking receive on an empty inbox never returns; a non-blocking one returns
  \<^verbatim>\<open>None\<close>. Nothing inside the loop assigns \<^verbatim>\<open>_received_actuator\<close> (the decode is a TODO of
  the source), so \<open>got\<close> is the same at every test.
\<close>

fun recv_loop :: "bool \<Rightarrow> bool \<Rightarrow> mav_msg list \<Rightarrow> (mav_msg list \<times> event list) option" where
  "recv_loop needs got [] =
     (if needs then None else Some ([], [Recv False, LogMsg None]))"
| "recv_loop needs got (m # ms) =
     (if \<not> needs \<or> got then Some (ms, [Recv needs, LogMsg (Some m)])
      else (case recv_loop needs got ms of
              None \<Rightarrow> None
            | Some (rest, evs) \<Rightarrow> Some (rest, [Recv needs, LogMsg (Some m)] @ evs)))"

definition poll_mavlink_messages ::
  "interface \<Rightarrow> mav_msg list \<Rightarrow> (interface \<times> event list) outcome" where
  "poll_mavlink_messages s inbox =
     (if \<not> received_first_hearbeat s then Done (s, [])
      else
        let needs_to_wait_for_actuator = (received_first_actuator s \<and> enable_lockstep s);
            s1 = s\<lparr>received_actuator := False\<rparr>
        in if connection s1 = None then Raised AttributeError (s1, [])
           else (case recv_loop needs_to_wait_for_actuator (received_actuator s1) inbox of
                   None \<Rightarrow> NoReturn
                 | Some (rest, evs) \<Rightarrow> Done (s1, evs)))"

text \<open>
  \<^verbatim>\<open>(time.time() - self._last_heartbeat_sent_time) > 1.0\<close>: the difference is a double
  (an infinite one compares by its sign).
\<close>

definition elapsed_over_1s :: "real \<Rightarrow> real \<Rightarrow> bool" where
  "elapsed_over_1s now last_sent =
     (case round_double (now - last_sent) of None \<Rightarrow> 0 < now - last_sent | Some d \<Rightarrow> 1 < d)"

text \<open>
  What one tick takes from outside: the schedule of the other threads during the gate
  and during the sleep, the inbound messages, the three clock readings, and whether the
  two sends succeed.
\<close>

record tick_env =
  sched :: "env_action list"
  inbox :: "mav_msg list"
  now_check :: real
  now_record :: real
  now_sensor :: real
  heartbeat_ok :: bool
  sensor_ok :: bool
  during_sleep :: "env_action list"

definition heartbeat_step :: "interface \<Rightarrow> tick_env \<Rightarrow> (interface \<times> event list) outcome" where
  "heartbeat_step s env =
     (if elapsed_over_1s (now_check env) (last_heartbeat_sent_time s)
         \<or> received_first_hearbeat s = False
      then (case send_heartbeat s (heartbeat_ok env) of
              Done evs \<Rightarrow> Done (s\<lparr>last_heartbeat_sent_time := now_record env\<rparr>, evs)
            | Raised e evs \<Rightarrow> Raised e (s, evs)
            | NoReturn \<Rightarrow> NoReturn)
      else Done (s, []))"

text \<open>\<^verbatim>\<open>time.sleep(1.0 / self._update_rate)\<close>.\<close>

definition sleep_step :: "interface \<Rightarrow> event list outcome" where
  "sleep_step s =
     (if update_rate s = 0 then Raised ZeroDivisionError []
      else (case round_double (1 / update_rate s) of
              None \<Rightarrow> Raised OverflowError []
            | Some d \<Rightarrow> if d < 0 then Raised ValueError [] else Done [Sleep d]))"

text \<open>
  One iteration of the \<^verbatim>\<open>while\<close> loop of \<^verbatim>\<open>mavlink_update\<close>, entered with the loop
  condition true. \<^verbatim>\<open>send_ground_truth\<close> and \<^verbatim>\<open>handle_control\<close> are empty in the source.
\<close>

definition after_poll :: "interface \<Rightarrow> event list \<Rightarrow> tick_env \<Rightarrow> (interface \<times> event list) outcome" where
  "after_poll s evs env =
     (case heartbeat_step s env of
        NoReturn \<Rightarrow> NoReturn
      | Raised e (s1, evs1) \<Rightarrow> Raised e (s1, evs @ evs1)
      | Done (s1, evs1) \<Rightarrow>
          (case send_sensor_msgs s1 (now_sensor env) (sensor_ok env) of
             (s2, evs2) \<Rightarrow>
               (case sleep_step s2 of
                  NoReturn \<Rightarrow> NoReturn
                | Raised e evs3 \<Rightarrow> Raised e (s2, evs @ evs1 @ evs2 @ evs3)
                | Done evs3 \<Rightarrow>
                    Done (fold env_step (during_sleep env) s2, evs @ evs1 @ evs2 @ evs3))))"

definition mavlink_update_tick :: "interface \<Rightarrow> tick_env \<Rightarrow> (interface \<times> event list) outcome" where
  "mavlink_update_tick s env =
     (case lockstep_gate s (sched env) of
        None \<Rightarrow> NoReturn
      | Some s1 \<Rightarrow>
          (case poll_mavlink_messages (s1\<lparr>received_imu := False\<rparr>) (inbox env) of
             NoReturn \<Rightarrow> NoReturn
           | Raised e (s2, evs) \<Rightarrow> Raised e (s2, evs)
           | Done (s2, evs) \<Rightarrow> after_poll s2 evs env))"

text \<open>
  The loop itself, over the environments of its successive ticks. It returns when it
  finds \<^verbatim>\<open>_is_running\<close> false; while the flag is true and no tick is left to run, it has
  not returned.
\<close>

fun mavlink_update :: "interface \<Rightarrow> tick_env list \<Rightarrow> (interface \<times> event list) outcome" where
  "mavlink_update s [] = (if is_running s then NoReturn else Done (s, []))"
| "mavlink_update s (env # envs) =
     (if \<not> is_running s then Done (s, [])
      else (case mavlink_update_tick s env of
              NoReturn \<Rightarrow> NoReturn
            | Raised e (s1, evs) \<Rightarrow> Raised e (s1, evs)
            | Done (s1, evs) \<Rightarrow>
                (case mavlink_update s1 envs of
                   NoReturn \<Rightarrow> NoReturn
                 | Raised e (s2, evs') \<Rightarrow> Raised e (s2, evs @ evs')
                 | Done (s2, evs') \<Rightarrow> Done (s2, evs @ evs'))))"

section \<open>Connection lifecycle\<close>

definition re_initialize_interface :: "interface \<Rightarrow> world \<Rightarrow> (interface \<times> world) outcome" where
  "re_initialize_interface s w =
     (let s1 = s\<lparr>is_running := False\<rparr> in
        (case mavlink_connection (connection_port s1) w of
           None \<Rightarrow> Raised ConnectionError (s1, w)
         | Some (c, w') \<Rightarrow>
             Done (s1\<lparr>connection := Some c,
                      received_first_imu := False, received_first_actuator := False,
                      received_imu := False, received_actuator := False,
                      received_first_hearbeat := False,
                      last_heartbeat_sent_time := 0\<rparr>, w')))"

definition start_stream :: "interface \<Rightarrow> world \<Rightarrow> (interface \<times> world) outcome" where
  "start_stream s w =
     (if is_running s = True then Done (s, w)
      else
        (case (if connection s = None then re_initialize_interface s w else Done (s, w)) of
           Done (s1, w1) \<Rightarrow>
             Done (s1\<lparr>is_running := True, update_thread := Created,
                      heartbeat_threads := Suc (heartbeat_threads s1)\<rparr>, w1)
         | Raised e r \<Rightarrow> Raised e r
         | NoReturn \<Rightarrow> NoReturn))"

text \<open>
  When \<^verbatim>\<open>stop_stream\<close> writes \<^verbatim>\<open>_is_running = False\<close>, the update thread stands somewhere
  in its loop: at the loop test, at the lockstep gate (line 259), before the poll
  (line 264), before the heartbeat test (line 270), before \<^verbatim>\<open>send_sensor_msgs\<close>
  (line 275), or in the sleep (line 286). It runs the rest of that iteration before it
  tests the flag again.
\<close>

datatype tick_point = AtLoopTest | AtGate | AtPoll | AtHeartbeat | AtSensor | AtSleep

definition sleep_from :: "interface \<Rightarrow> tick_env \<Rightarrow> (interface \<times> event list) outcome" where
  "sleep_from s env =
     (case sleep_step s of
        NoReturn \<Rightarrow> NoReturn
      | Raised e evs \<Rightarrow> Raised e (s, evs)
      | Done evs \<Rightarrow> Done (fold env_step (during_sleep env) s, evs))"

definition sensor_from :: "interface \<Rightarrow> tick_env \<Rightarrow> (interface \<times> event list) outcome" where
  "sensor_from s env =
     (case send_sensor_msgs s (now_sensor env) (sensor_ok env) of
        (s2, evs2) \<Rightarrow>
          (case sleep_from s2 env of
             NoReturn \<Rightarrow> NoReturn
           | Raised e (s3, evs3) \<Rightarrow> Raised e (s3, evs2 @ evs3)
           | Done (s3, evs3) \<Rightarrow> Done (s3, evs2 @ evs3)))"

fun resume_tick ::
  "tick_point \<Rightarrow> interface \<Rightarrow> tick_env \<Rightarrow> (interface \<times> event list) outcome" where
  "resume_tick AtLoopTest s env = Done (s, [])"
| "resume_tick AtGate s env = mavlink_update_tick s env"
| "resume_tick AtPoll s env =
     (case poll_mavlink_messages (s\<lparr>received_imu := False\<rparr>) (inbox env) of
        NoReturn \<Rightarrow> NoReturn
      | Raised e (s2, evs) \<Rightarrow> Raised e (s2, evs)
      | Done (s2, evs) \<Rightarrow> after_poll s2 evs env)"
| "resume_tick AtHeartbeat s env = after_poll s [] env"
| "resume_tick AtSensor s env = sensor_from s env"
| "resume_tick AtSleep s env = sleep_from s env"

text \<open>
  \<^verbatim>\<open>self._update_thread.join()\<close>: the object has no thread before \<^verbatim>\<open>start_stream\<close>, and
  joining a thread that was never started raises RuntimeError. A started thread is joined
  once its target has ended: it finishes the iteration it is in and leaves the loop at
  the next test of \<^verbatim>\<open>_is_running\<close>, or it dies of an exception raised in that iteration
  (the heartbeat send, the sleep). While the thread sits in the blocking receive of
  \<^verbatim>\<open>poll_mavlink_messages\<close> the join does not return.
\<close>

definition join_update_thread ::
  "interface \<Rightarrow> tick_point \<Rightarrow> tick_env \<Rightarrow> (interface \<times> event list) outcome" where
  "join_update_thread s pt env =
     (case update_thread s of
        NoThread \<Rightarrow> Raised AttributeError (s, [])
      | Created \<Rightarrow> Raised RuntimeError (s, [])
      | Finished \<Rightarrow> Done (s, [])
      | Started \<Rightarrow>
          (case resume_tick pt s env of
             NoReturn \<Rightarrow> NoReturn
           | Raised e (s1, evs) \<Rightarrow> Done (s1\<lparr>update_thread := Finished\<rparr>, evs)
           | Done (s1, evs) \<Rightarrow>
               (case mavlink_update s1 [] of
                  NoReturn \<Rightarrow> NoReturn
                | Raised e (s2, evs') \<Rightarrow> Done (s2\<lparr>update_thread := Finished\<rparr>, evs @ evs')
                | Done (s2, evs') \<Rightarrow> Done (s2\<lparr>update_thread := Finished\<rparr>, evs @ evs'))))"

text \<open>
  \<^verbatim>\<open>stop_stream\<close>, called while the update thread stands at \<open>pt\<close> and meets the environment
  \<open>env\<close> in the rest of its iteration.
\<close>

definition stop_stream ::
  "interface \<Rightarrow> world \<Rightarrow> tick_point \<Rightarrow> tick_env \<Rightarrow> (interface \<times> world) outcome" where
  "stop_stream s w pt env =
     (if is_running s = False then Done (s, w)
      else
        (case join_update_thread (s\<lparr>is_running := False\<rparr>) pt env of
           NoReturn \<Rightarrow> NoReturn
         | Raised e (s1, evs) \<Rightarrow> Raised e (s1, w)
         | Done (s1, evs) \<Rightarrow>
             (case connection s1 of
                None \<Rightarrow> Raised AttributeError (s1, w)
              | Some c \<Rightarrow>
                  Done (s1\<lparr>connection := None\<rparr>,
                        w\<lparr>closed_conns := conn_id c # closed_conns w\<rparr>))))"

text \<open>
  \<^verbatim>\<open>wait_for_first_hearbeat\<close>, run by the thread \<^verbatim>\<open>start_stream\<close> starts:
  \<^verbatim>\<open>wait_heartbeat()\<close> returns only when a heartbeat arrives; then the flag is set and
  the update thread is started (a thread can be started only once).
\<close>

definition wait_for_first_hearbeat :: "interface \<Rightarrow> bool \<Rightarrow> (interface \<times> event list) outcome" where
  "wait_for_first_hearbeat s arrives =
     (if connection s = None then Raised AttributeError (s, [LogWarn ''Waiting for first hearbeat''])
      else if \<not> arrives then NoReturn
      else
        let s1 = s\<lparr>received_first_hearbeat := True\<rparr>;
            evs = [LogWarn ''Waiting for first hearbeat'', LogWarn ''Received first hearbeat'']
        in (case update_thread s1 of
              Created \<Rightarrow> Done (s1\<lparr>update_thread := Started\<rparr>, evs)
            | NoThread \<Rightarrow> Raised AttributeError (s1, evs)
            | Started \<Rightarrow> Raised RuntimeError (s1, evs)
            | Finished \<Rightarrow> Raised RuntimeError (s1, evs)))"

text \<open>\<^verbatim>\<open>stop_stream()\<close> followed by \<^verbatim>\<open>start_stream()\<close>.\<close>

definition stop_then_start ::
  "interface \<Rightarrow> world \<Rightarrow> tick_point \<Rightarrow> tick_env \<Rightarrow> (interface \<times> world) outcome" where
  "stop_then_start s w pt env =
     (case stop_stream s w pt env of
        Done (s1, w1) \<Rightarrow> start_stream s1 w1
      | Raised e r \<Rightarrow> Raised e r
      | NoReturn \<Rightarrow> NoReturn)"

text \<open>
  The life of one object after its constructor, as the sequence of what is done to it:
  the calls of its public methods, the arrival (or not) of the peer's heartbeat in the
  thread \<^verbatim>\<open>start_stream\<close> starts, the ticks of the update thread, single writes of other
  threads, and connections that other objects open in the same world. A call that raises
  leaves the state it had reached; one that does not return leaves the state as it was.
\<close>

datatype api_call =
    CallUpdate sensor_update
  | CallUpdateGps dict
  | CallUpdateImu
  | CallStart
  | CallStop tick_point tick_env
  | HeartbeatArrival bool
  | ThreadTick tick_env
  | ThreadWrite env_action
  | OtherOpen string

definition state_after :: "'a outcome \<Rightarrow> 'a \<Rightarrow> 'a" where
  "state_after r old = (case r of Done x \<Rightarrow> x | Raised e x \<Rightarrow> x | NoReturn \<Rightarrow> old)"

fun run_call :: "api_call \<Rightarrow> interface \<times> world \<Rightarrow> interface \<times> world" where
  "run_call (CallUpdate u) (s, w) = (snd (apply_update u s), w)"
| "run_call (CallUpdateGps d) (s, w) = (snd (update_gps_data d s), w)"
| "run_call CallUpdateImu (s, w) = (update_imu () s, w)"
| "run_call CallStart (s, w) = state_after (start_stream s w) (s, w)"
| "run_call (CallStop pt env) (s, w) = state_after (stop_stream s w pt env) (s, w)"
| "run_call (HeartbeatArrival arrives) (s, w) =
     (fst (state_after (wait_for_first_hearbeat s arrives) (s, [])), w)"
| "run_call (ThreadTick env) (s, w) =
     (fst (state_after (mavlink_update_tick s env) (s, [])), w)"
| "run_call (ThreadWrite a) (s, w) = (env_step a s, w)"
| "run_call (OtherOpen port) (s, w) =
     (case mavlink_connection port w of None \<Rightarrow> (s, w) | Some (c, w') \<Rightarrow> (s, w'))"

definition run_calls :: "api_call list \<Rightarrow> interface \<times> world \<Rightarrow> interface \<times> world" where
  "run_calls calls r = fold run_call calls r"

section \<open>Observations and sample inputs\<close>

text \<open>The bitmask a drain would compose from a state, and the four group flags it clears.\<close>

definition composed_mask :: "interface \<Rightarrow> int" where
  "composed_mask s = fst (drain_flags (sensor_data s))"

definition dirty_flags :: "interface \<Rightarrow> bool \<times> bool \<times> bool \<times> bool" where
  "dirty_flags s =
     (new_imu_data (sensor_data s), new_mag_data (sensor_data s),
      new_bar_data (sensor_data s), new_press_data (sensor_data s))"

definition flag_mask :: "bool \<Rightarrow> int \<Rightarrow> int" where
  "flag_mask b c = (if b then c else 0)"

text \<open>The state a drain leaves behind.\<close>

abbreviation drained :: "interface \<Rightarrow> real \<Rightarrow> bool \<Rightarrow> interface" where
  "drained s now send_ok \<equiv> fst (send_sensor_msgs s now send_ok)"

text \<open>
  A world in which every endpoint can be opened, and the object
  \<^verbatim>\<open>MavlinkInterface("udpin:localhost:14550")\<close> constructed in it.
\<close>

definition demo_world :: world where
  "demo_world = \<lparr>next_conn = 0, can_open = (\<lambda>port. True), closed_conns = []\<rparr>"

definition demo_interface :: interface where
  "demo_interface =
     \<lparr>connection_port = ''udpin:localhost:14550'',
      connection = Some \<lparr>conn_id = 0, conn_endpoint = ''udpin:localhost:14550''\<rparr>,
      update_rate = 250, is_running = False, GPS_fix_type = 3,
      GPS_satellites_visible = 10, GPS_eph = 1, GPS_epv = 1, sensor_data = SensorMsg,
      num_inputs = 4, input_reference = [0, 0, 0, 0], armed = False,
      input_offset = [0, 0, 0, 0], input_scaling = [0, 0, 0, 0],
      enable_lockstep = True,
      received_first_imu = False, received_first_actuator = False,
      received_imu = False, received_actuator = False,
      received_first_hearbeat = False, last_heartbeat_sent_time = 0,
      update_thread = NoThread, heartbeat_threads = 0\<rparr>"

definition imu_sample :: dict where
  "imu_sample =
     map_of [(''linear_acceleration'', Vec [1, 2, 3]), (''angular_velocity'', Vec [0, 0, 0])]"

text \<open>
  A magnetometer and a barometer dictionary, and one dictionary that holds the keys of all
  three update methods.
\<close>

definition mag_sample :: dict where
  "mag_sample = map_of [(''magnetic_field'', Vec [1 / 4, 0, - 1 / 2])]"

definition bar_sample :: dict where
  "bar_sample =
     map_of [(''temperature'', Num 15), (''absolute_pressure'', Num 1013),
             (''pressure_altitude'', Num 488)]"

definition full_sample :: dict where
  "full_sample =
     map_of [(''linear_acceleration'', Vec [1, 2, 3]), (''angular_velocity'', Vec [4, 5, 6]),
             (''magnetic_field'', Vec [1 / 4, 0, - 1 / 2]),
             (''temperature'', Num 15), (''absolute_pressure'', Num 1013),
             (''pressure_altitude'', Num 488)]"

text \<open>The accelerometer and gyro values of the payload.\<close>

definition imu_payload :: "interface \<Rightarrow> real \<times> real \<times> real \<times> real \<times> real \<times> real" where
  "imu_payload s =
     (xacc (sensor_data s), yacc (sensor_data s), zacc (sensor_data s),
      xgyro (sensor_data s), ygyro (sensor_data s), zgyro (sensor_data s))"

text \<open>
  A GPS sample with the key spelled as the source reads it. Its floats are the doubles
  Python holds for \<^verbatim>\<open>47.1234567\<close>, \<^verbatim>\<open>8.5\<close>, \<^verbatim>\<open>488.5\<close>, \<^verbatim>\<open>1.999\<close>, \<^verbatim>\<open>-1.5\<close> and \<^verbatim>\<open>90.0\<close>.
  The second sample carries the correctly spelled \<^verbatim>\<open>satellites_visible\<close> instead, the
  third that key alone.
\<close>

definition gps_sample :: dict where
  "gps_sample =
     map_of [(''fix_type'', Num 3),
             (''latitude'', Num (6632036938579053 / 140737488355328)),
             (''longitude'', Num (17 / 2)),
             (''altitude'', Num (977 / 2)),
             (''eph'', Num 1),
             (''epv'', Num 1),
             (''speed'', Num (4501347827556811 / 2251799813685248)),
             (''velocity_north'', Num (- 3 / 2)),
             (''velocity_east'', Num 0),
             (''velocity_down'', Num 0),
             (''cog'', Num 90),
             (''sattelites_visible'', Num 10)]"



text \<open>The result of a call without its log, and the two parts of a tick's result.\<close>

definition forget_events :: "('s \<times> event list) outcome \<Rightarrow> 's outcome" where
  "forget_events r =
     (case r of Done (s, evs) \<Rightarrow> Done s | Raised e (s, evs) \<Rightarrow> Raised e s | NoReturn \<Rightarrow> NoReturn)"

definition tick_state :: "interface \<Rightarrow> tick_env \<Rightarrow> interface" where
  "tick_state s env =
     (case mavlink_update_tick s env of
        Done (s', evs) \<Rightarrow> s' | Raised e (s', evs) \<Rightarrow> s' | NoReturn \<Rightarrow> s)"

definition tick_events :: "interface \<Rightarrow> tick_env \<Rightarrow> event list" where
  "tick_events s env =
     (case mavlink_update_tick s env of
        Done (s', evs) \<Rightarrow> evs | Raised e (s', evs) \<Rightarrow> evs | NoReturn \<Rightarrow> [])"

text \<open>The frames a log shows on the wire.\<close>

fun is_send :: "event \<Rightarrow> bool" where
  "is_send (HeartbeatSent a b c d e) = True"
| "is_send (SensorSent f) = True"
| "is_send (GpsSent g) = True"
| "is_send ev = False"

text \<open>
  A quiet environment for one tick at clock reading \<open>now\<close>: no other thread acts, nothing
  arrives, both sends succeed.
\<close>

definition quiet_env :: "real \<Rightarrow> tick_env" where
  "quiet_env now =
     \<lparr>sched = [], inbox = [], now_check = now, now_record = now, now_sensor = now,
      heartbeat_ok = True, sensor_ok = True, during_sleep = []\<rparr>"

text \<open>
  The demo object with the loop running before the peer's heartbeat was seen; after
  \<^verbatim>\<open>start_stream\<close> and the arrival of the first heartbeat; and with an actuator message
  received earlier (the state in which lockstep would engage).
\<close>

definition awaiting_peer :: interface where
  "awaiting_peer = demo_interface\<lparr>is_running := True\<rparr>"

definition streaming :: interface where
  "streaming =
     demo_interface\<lparr>is_running := True, received_first_hearbeat := True,
       update_thread := Started, heartbeat_threads := 1\<rparr>"

definition after_first_actuator :: interface where
  "after_first_actuator = awaiting_peer\<lparr>received_first_actuator := True\<rparr>"

text \<open>
  What a tick, or a part of one, never changes: the connection, the endpoint and the
  thread; and it never sets the running flag. What every history keeps true: the endpoint
  is the constructor's, a running object has a connection, and the connection was handed
  out by the world on that endpoint.
\<close>

definition wired :: "interface \<Rightarrow> interface \<Rightarrow> bool" where
  "wired s s' =
     (connection s' = connection s \<and> connection_port s' = connection_port s
      \<and> update_thread s' = update_thread s \<and> (is_running s \<or> \<not> is_running s'))"

definition wiring_ok :: "string \<Rightarrow> interface \<times> world \<Rightarrow> bool" where
  "wiring_ok port r =
     (case r of
        (s, w) \<Rightarrow>
          connection_port s = port
          \<and> (case connection s of
                None \<Rightarrow> \<not> is_running s
              | Some c \<Rightarrow> conn_id c < next_conn w \<and> conn_endpoint c = port))"

text \<open>The heartbeat frames a log shows.\<close>

fun is_heartbeat :: "event \<Rightarrow> bool" where
  "is_heartbeat (HeartbeatSent a b c d e) = True"
| "is_heartbeat ev = False"

section \<open>Verified properties\<close>

subsection \<open>Assignments and dirty flags\<close>

lemma assign_keeps:
  assumes "\<And>v m. f (st v m) = f m"
  shows "f (snd (assign rhs st r)) = f (snd r)"
  using assms by (cases r) (auto simp: assign_def split: option.splits sum.splits)

lemma assign_flag:
  "assign (Inr True) st r = (case fst r of None \<Rightarrow> (None, st True (snd r)) | Some e \<Rightarrow> r)"
  by (cases r) (auto simp: assign_def split: option.splits)

lemmas keeps_flags =
  assign_keeps [where f = new_imu_data] assign_keeps [where f = new_mag_data]
  assign_keeps [where f = new_bar_data] assign_keeps [where f = new_press_data]

lemma on_sensor_data_proj:
  "fst (on_sensor_data body s) = fst (body (sensor_data s))"
  "sensor_data (snd (on_sensor_data body s)) = snd (body (sensor_data s))"
  by (simp_all add: on_sensor_data_def split_beta)

lemma imu_flags:
  "new_imu_data (sensor_data (snd (update_imu_data d s))) =
     (new_imu_data (sensor_data s) \<or> fst (update_imu_data d s) = None)"
  "new_mag_data (sensor_data (snd (update_imu_data d s))) = new_mag_data (sensor_data s)"
  "new_bar_data (sensor_data (snd (update_imu_data d s))) = new_bar_data (sensor_data s)"
  "new_press_data (sensor_data (snd (update_imu_data d s))) = new_press_data (sensor_data s)"
  unfolding update_imu_data_def on_sensor_data_proj run_stmts_def
  by (simp_all add: assign_flag keeps_flags split: option.splits)

lemma mag_flags:
  "new_mag_data (sensor_data (snd (update_mag_data d s))) =
     (new_mag_data (sensor_data s) \<or> fst (update_mag_data d s) = None)"
  "new_imu_data (sensor_data (snd (update_mag_data d s))) = new_imu_data (sensor_data s)"
  "new_bar_data (sensor_data (snd (update_mag_data d s))) = new_bar_data (sensor_data s)"
  "new_press_data (sensor_data (snd (update_mag_data d s))) = new_press_data (sensor_data s)"
  unfolding update_mag_data_def on_sensor_data_proj run_stmts_def
  by (simp_all add: assign_flag keeps_flags split: option.splits)

lemma bar_flags:
  "new_bar_data (sensor_data (snd (update_bar_data d s))) =
     (new_bar_data (sensor_data s) \<or> fst (update_bar_data d s) = None)"
  "new_imu_data (sensor_data (snd (update_bar_data d s))) = new_imu_data (sensor_data s)"
  "new_mag_data (sensor_data (snd (update_bar_data d s))) = new_mag_data (sensor_data s)"
  "new_press_data (sensor_data (snd (update_bar_data d s))) = new_press_data (sensor_data s)"
  unfolding update_bar_data_def on_sensor_data_proj run_stmts_def
  by (simp_all add: assign_flag keeps_flags split: option.splits)

lemma press_flags:
  "new_press_data (sensor_data (snd (update_press_data v s))) =
     (new_press_data (sensor_data s) \<or> fst (update_press_data v s) = None)"
  "new_imu_data (sensor_data (snd (update_press_data v s))) = new_imu_data (sensor_data s)"
  "new_mag_data (sensor_data (snd (update_press_data v s))) = new_mag_data (sensor_data s)"
  "new_bar_data (sensor_data (snd (update_press_data v s))) = new_bar_data (sensor_data s)"
  unfolding update_press_data_def on_sensor_data_proj run_stmts_def
  by (simp_all add: assign_flag keeps_flags split: option.splits)

subsection \<open>The drain\<close>

lemma drain_mask:
  "fst (drain_flags m) =
     flag_mask (new_imu_data m) 63 OR flag_mask (new_mag_data m) 448 OR
     flag_mask (new_bar_data m) 6656 OR flag_mask (new_press_data m) 1024"
  by (simp add: drain_flags_def flag_mask_def ACCEL_def GYRO_def MAG_def BARO_def DIFF_PRESS_def)

lemma drain_clears:
  "snd (drain_flags m) =
     m\<lparr>new_imu_data := False, new_mag_data := False, new_bar_data := False,
       new_press_data := False\<rparr>"
  by (simp add: drain_flags_def)

lemma drained_mask_zero: "fst (drain_flags (snd (drain_flags m))) = 0"
  by (simp add: drain_mask drain_clears flag_mask_def)

lemma hil_sensor_args_drained:
  "hil_sensor_args (snd (drain_flags m)) now k = hil_sensor_args m now k"
  by (simp add: hil_sensor_args_def drain_clears)

lemma send_sensor_state:
  "sensor_data (fst (send_sensor_msgs s t ok)) = snd (drain_flags (sensor_data s))"
  "connection (fst (send_sensor_msgs s t ok)) = connection s"
  by (simp_all add: send_sensor_msgs_def split_beta)

lemma send_sensor_events:
  "snd (send_sensor_msgs s t ok) =
     LogWarn ''Sending sensor msgs'' #
       (if connection s \<noteq> None \<and> ok
        then [SensorSent (hil_sensor_args (sensor_data s) t (composed_mask s))]
        else [LogWarn ''Could not send sensor data through mavlink''])"
  by (simp add: send_sensor_msgs_def split_beta hil_sensor_args_drained composed_mask_def)

lemma flag_mask_disj: "flag_mask (a \<or> b) c = flag_mask a c OR flag_mask b c"
  by (simp add: flag_mask_def)

lemma or_all_append: "or_all (xs @ ys) = or_all xs OR or_all ys"
  by (induction xs) (simp_all add: or_all_def or.assoc)

lemma or_all_codes:
  "or_all [ACCEL, GYRO] = 63"
  "or_all [MAG] = 448"
  "or_all [BARO] = 6656"
  "or_all [DIFF_PRESS] = 1024"
  by (simp_all add: or_all_def ACCEL_def GYRO_def MAG_def BARO_def DIFF_PRESS_def)

lemma update_step_mask:
  "fst (drain_flags (sensor_data (snd (apply_update u s)))) =
     fst (drain_flags (sensor_data s)) OR
     flag_mask (fst (apply_update u s) = None) (or_all (group_codes u))"
proof (cases u)
  case (ImuData d)
  then show ?thesis
    by (simp add: drain_mask imu_flags flag_mask_disj or_all_codes or.assoc or.commute or.left_commute)
next
  case (MagData d)
  then show ?thesis
    by (simp add: drain_mask mag_flags flag_mask_disj or_all_codes or.assoc or.commute or.left_commute)
next
  case (BarData d)
  then show ?thesis
    by (simp add: drain_mask bar_flags flag_mask_disj or_all_codes or.assoc or.commute or.left_commute)
next
  case (PressData v)
  then show ?thesis
    by (simp add: drain_mask press_flags flag_mask_disj or_all_codes or.assoc or.commute or.left_commute)
qed

lemma touched_Cons:
  "or_all (touched (u # us) s) =
     flag_mask (fst (apply_update u s) = None) (or_all (group_codes u)) OR
     or_all (touched us (snd (apply_update u s)))"
  by (cases "apply_update u s")
     (auto simp: flag_mask_def or_all_append split: option.splits)

lemma updates_mask:
  "fst (drain_flags (sensor_data (apply_updates us s))) =
     fst (drain_flags (sensor_data s)) OR or_all (touched us s)"
proof (induction us arbitrary: s)
  case Nil
  show ?case by (simp add: or_all_def)
next
  case (Cons u us)
  show ?case
    unfolding apply_updates.simps touched_Cons Cons.IH update_step_mask
    by (simp add: or.assoc)
qed

lemma item_at_Inr_iff:
  "(\<exists>v. item_at d k 0 = Inr v) \<and> (\<exists>v. item_at d k 1 = Inr v) \<and> (\<exists>v. item_at d k 2 = Inr v)
     \<longleftrightarrow> has_vec3 d k"
  by (auto simp: has_vec3_def item_at_def split: option.splits pyval.splits)

lemma assign_fst:
  "fst (assign rhs st r) =
     (case fst r of Some e \<Rightarrow> Some e
      | None \<Rightarrow> (case rhs of Inl e \<Rightarrow> Some e | Inr v \<Rightarrow> None))"
  by (cases r) (auto simp: assign_def split: option.splits sum.splits)

lemma press_ok:
  "update_press_data v s =
     (None, s\<lparr>sensor_data := (sensor_data s)\<lparr>diff_pressure := v, new_press_data := True\<rparr>\<rparr>)"
  by (simp add: update_press_data_def on_sensor_data_def run_stmts_def assign_def)

lemma returns_iff_well_formed: "fst (apply_update u s) = None \<longleftrightarrow> well_formed u"
proof (cases u)
  case (ImuData d)
  have "fst (update_imu_data d s) = None \<longleftrightarrow>
      (\<exists>v. item_at d ''linear_acceleration'' 0 = Inr v) \<and>
      (\<exists>v. item_at d ''linear_acceleration'' 1 = Inr v) \<and>
      (\<exists>v. item_at d ''linear_acceleration'' 2 = Inr v) \<and>
      (\<exists>v. item_at d ''angular_velocity'' 0 = Inr v) \<and>
      (\<exists>v. item_at d ''angular_velocity'' 1 = Inr v) \<and>
      (\<exists>v. item_at d ''angular_velocity'' 2 = Inr v)"
    unfolding update_imu_data_def on_sensor_data_proj run_stmts_def
    by (simp add: assign_fst split: sum.splits)
  then show ?thesis
    using ImuData item_at_Inr_iff [of d "''linear_acceleration''"]
      item_at_Inr_iff [of d "''angular_velocity''"]
    by (simp add: numeral_eq_Suc) blast
next
  case (MagData d)
  have "fst (update_mag_data d s) = None \<longleftrightarrow>
      (\<exists>v. item_at d ''magnetic_field'' 0 = Inr v) \<and>
      (\<exists>v. item_at d ''magnetic_field'' 1 = Inr v) \<and>
      (\<exists>v. item_at d ''magnetic_field'' 2 = Inr v)"
    unfolding update_mag_data_def on_sensor_data_proj run_stmts_def
    by (simp add: assign_fst split: sum.splits)
  then show ?thesis
    using MagData item_at_Inr_iff [of d "''magnetic_field''"]
    by (simp add: numeral_eq_Suc)
next
  case (BarData d)
  have "fst (update_bar_data d s) = None \<longleftrightarrow>
      d ''temperature'' \<noteq> None \<and> d ''absolute_pressure'' \<noteq> None
      \<and> d ''pressure_altitude'' \<noteq> None"
    unfolding update_bar_data_def on_sensor_data_proj run_stmts_def
    by (auto simp: assign_fst get_item_def split: sum.splits option.splits)
  with BarData show ?thesis by simp
next
  case (PressData v)
  then show ?thesis
    by (simp add: press_ok)
qed

lemma touched_well_formed:
  "touched us s = concat (map group_codes (filter well_formed us))"
proof (induction us arbitrary: s)
  case Nil
  show ?case by simp
next
  case (Cons u us)
  show ?case
    using returns_iff_well_formed [of u s] Cons.IH
    by (cases "apply_update u s") (auto split: option.splits)
qed

text \<open>
  Claim C1. Between two drains the producer makes any sequence of calls of
  \<^verbatim>\<open>update_imu_data\<close>, \<^verbatim>\<open>update_mag_data\<close>, \<^verbatim>\<open>update_bar_data\<close> and the diff-pressure
  update, each with any dictionary. A call returns exactly when its dictionary is well
  formed (an IMU or magnetometer dictionary holds a sequence of three or more items under
  each key the method indexes, a barometer dictionary holds its three keys); a call that
  raises sets no flag, and the sequence goes on. The bitmask the second drain composes,
  and puts in the frame it sends, is the bitwise OR of the group codes of exactly the
  well-formed updates, which are the calls that returned; the four group flags of the
  sensor message are false right after the drain; the codes are ACCEL = 7 (0x07),
  GYRO = 56 (0x38), MAG = 448 (0x1C0), BARO = 6656 (0x1A00), DIFF_PRESS = 1024 (0x400),
  and an IMU update contributes 63 (0x3F).
\<close>

theorem drain_mask_is_or_of_touched_groups:
  "composed_mask (apply_updates us (drained s0 t0 ok0)) =
     or_all (concat (map group_codes (filter well_formed us)))
   \<and> touched us (drained s0 t0 ok0) = concat (map group_codes (filter well_formed us))
   \<and> (fst (apply_update u s) = None) = well_formed u
   \<and> snd (send_sensor_msgs (apply_updates us (drained s0 t0 ok0)) t ok) =
       LogWarn ''Sending sensor msgs'' #
         (if connection (apply_updates us (drained s0 t0 ok0)) \<noteq> None \<and> ok
          then [SensorSent (hil_sensor_args
                  (sensor_data (apply_updates us (drained s0 t0 ok0))) t
                  (or_all (concat (map group_codes (filter well_formed us)))))]
          else [LogWarn ''Could not send sensor data through mavlink''])
   \<and> dirty_flags (drained (apply_updates us (drained s0 t0 ok0)) t ok) =
       (False, False, False, False)
   \<and> (ACCEL, GYRO, MAG, BARO, DIFF_PRESS) = (7, 56, 448, 6656, 1024)
   \<and> or_all (group_codes (ImuData d)) = 63"
proof -
  have mask: "composed_mask (apply_updates us (drained s0 t0 ok0)) =
      or_all (concat (map group_codes (filter well_formed us)))"
    by (simp add: composed_mask_def updates_mask send_sensor_state drained_mask_zero
        touched_well_formed)
  have flags: "dirty_flags (drained (apply_updates us (drained s0 t0 ok0)) t ok) =
      (False, False, False, False)"
    by (simp add: dirty_flags_def send_sensor_state drain_clears)
  have codes: "(ACCEL, GYRO, MAG, BARO, DIFF_PRESS) = (7, 56, 448, 6656, 1024)"
    by (simp add: ACCEL_def GYRO_def MAG_def BARO_def DIFF_PRESS_def)
  have imu: "or_all (group_codes (ImuData d)) = 63"
    by (simp add: or_all_codes)
  show ?thesis
    unfolding send_sensor_events
    using mask flags codes imu touched_well_formed [of us "drained s0 t0 ok0"]
      returns_iff_well_formed [of u s]
    by simp
qed

lemma imu_sample_ok:
  "update_imu_data imu_sample s =
     (None, s\<lparr>sensor_data := (sensor_data s)\<lparr>xacc := 1, yacc := 2, zacc := 3,
        xgyro := 0, ygyro := 0, zgyro := 0, new_imu_data := True\<rparr>\<rparr>)"
  by (simp add: update_imu_data_def on_sensor_data_def run_stmts_def assign_def item_at_def
      imu_sample_def)

lemma sample_updates_well_formed:
  "has_vec3 imu_sample ''linear_acceleration''"
  "has_vec3 imu_sample ''angular_velocity''"
  "has_vec3 mag_sample ''magnetic_field''"
  "\<not> has_vec3 Map.empty ''magnetic_field''"
  "bar_sample ''temperature'' = Some (Num 15)"
  "bar_sample ''absolute_pressure'' = Some (Num 1013)"
  "bar_sample ''pressure_altitude'' = Some (Num 488)"
  by (simp_all add: has_vec3_def imu_sample_def mag_sample_def bar_sample_def)

text \<open>
  A magnetometer and a barometer update that return, each followed by one that raises
  KeyError: the mask is MAG | BARO = 7104 (0x1BC0). All four groups updated: 8191 (0x1FFF).
\<close>

theorem drain_mask_is_or_of_touched_groups_witness:
  "composed_mask
      (apply_updates
         [MagData mag_sample, MagData Map.empty, BarData bar_sample,
          BarData (bar_sample(''temperature'' := None))]
         (drained demo_interface 0 True)) = 7104
   \<and> fst (update_mag_data mag_sample demo_interface) = None
   \<and> fst (update_bar_data bar_sample demo_interface) = None
   \<and> composed_mask
      (apply_updates
         [ImuData imu_sample, MagData mag_sample, BarData bar_sample, PressData 5]
         (drained demo_interface 0 True)) = 8191"
proof -
  have codes: "or_all [MAG, BARO] = 7104" "or_all [ACCEL, GYRO, MAG, BARO, DIFF_PRESS] = 8191"
    by (simp_all add: or_all_def ACCEL_def GYRO_def MAG_def BARO_def DIFF_PRESS_def)
  have a: "composed_mask
      (apply_updates
         [MagData mag_sample, MagData Map.empty, BarData bar_sample,
          BarData (bar_sample(''temperature'' := None))]
         (drained demo_interface 0 True)) = 7104"
    using drain_mask_is_or_of_touched_groups
      [of "[MagData mag_sample, MagData Map.empty, BarData bar_sample,
          BarData (bar_sample(''temperature'' := None))]" demo_interface 0 True,
       THEN conjunct1]
    by (simp add: sample_updates_well_formed codes)
  have b: "fst (update_mag_data mag_sample demo_interface) = None"
    using drain_mask_is_or_of_touched_groups
      [where u = "MagData mag_sample" and s = demo_interface,
        THEN conjunct2, THEN conjunct2, THEN conjunct1]
    by (simp add: sample_updates_well_formed)
  have c: "fst (update_bar_data bar_sample demo_interface) = None"
    using drain_mask_is_or_of_touched_groups
      [where u = "BarData bar_sample" and s = demo_interface,
        THEN conjunct2, THEN conjunct2, THEN conjunct1]
    by (simp add: sample_updates_well_formed)
  have e: "composed_mask
      (apply_updates
         [ImuData imu_sample, MagData mag_sample, BarData bar_sample, PressData 5]
         (drained demo_interface 0 True)) = 8191"
    using drain_mask_is_or_of_touched_groups
      [of "[ImuData imu_sample, MagData mag_sample, BarData bar_sample, PressData 5]"
        demo_interface 0 True, THEN conjunct1]
    by (simp add: sample_updates_well_formed codes)
  from a b c e show ?thesis by blast
qed

subsection \<open>The double-precision model\<close>

text \<open>
  \<open>ilog2\<close> is the binary exponent, and a rounded value is within half a unit in the last
  place of the exact one.
\<close>

lemma ilog2_bounds:
  assumes "0 < q"
  shows "2 powi (ilog2 q) \<le> q \<and> q < 2 powi (ilog2 q + 1)"
proof (cases "1 \<le> q")
  case True
  define n where "n = \<lfloor>q\<rfloor>"
  have n: "0 < n" using True by (simp add: n_def)
  from bitlen_bounds [OF n]
  have b: "2 ^ nat (bitlen n - 1) \<le> n" "n < 2 ^ nat (bitlen n)" by simp_all
  have bl: "1 \<le> bitlen n"
    using n bitlen_nonneg [of n] bitlen_eq_zero_iff [of n] by linarith
  have q: "real_of_int n \<le> q" "q < real_of_int n + 1"
    unfolding n_def by linarith+
  have "real_of_int (2 ^ nat (bitlen n - 1)) \<le> real_of_int n"
    using b(1) by (simp only: of_int_le_iff)
  then have lo: "(2::real) ^ nat (bitlen n - 1) \<le> real_of_int n" by simp
  have "n + 1 \<le> 2 ^ nat (bitlen n)" using b(2) by simp
  then have "real_of_int (n + 1) \<le> real_of_int (2 ^ nat (bitlen n))"
    by (simp only: of_int_le_iff)
  then have hi: "real_of_int n + 1 \<le> (2::real) ^ nat (bitlen n)" by simp
  have e1: "(2::real) powi (bitlen n - 1) = 2 ^ nat (bitlen n - 1)"
    using bl by (simp add: power_int_def)
  have e2: "(2::real) powi (bitlen n - 1 + 1) = 2 ^ nat (bitlen n)"
    using bl by (simp add: power_int_def)
  have il: "ilog2 q = bitlen n - 1" using True by (simp add: ilog2_def n_def)
  show ?thesis unfolding il e1 e2 using lo hi q by linarith
next
  case False
  define m where "m = \<lceil>1 / q\<rceil> - 1"
  define j where "j = bitlen m"
  from False assms have q1: "1 < 1 / q" by simp
  then have "2 \<le> \<lceil>1 / q\<rceil>" by linarith
  then have m: "0 < m" by (simp add: m_def)
  from bitlen_bounds [OF m]
  have b: "2 ^ nat (j - 1) \<le> m" "m < 2 ^ nat j" by (simp_all add: j_def)
  have jl: "1 \<le> j"
    using m bitlen_nonneg [of m] bitlen_eq_zero_iff [of m] unfolding j_def by linarith
  have "\<lceil>1 / q\<rceil> \<le> 2 ^ nat j" using b(2) by (simp add: m_def)
  then have "1 / q \<le> real_of_int (2 ^ nat j)"
    by (simp add: ceiling_le_iff)
  then have up: "1 / q \<le> 2 ^ nat j" by simp
  have "2 ^ nat (j - 1) < \<lceil>1 / q\<rceil>" using b(1) by (simp add: m_def)
  then have "real_of_int (2 ^ nat (j - 1)) < 1 / q"
    by (simp add: less_ceiling_iff)
  then have dn: "2 ^ nat (j - 1) < 1 / q" by simp
  have p: "(0::real) < 2 ^ nat j" "(0::real) < 2 ^ nat (j - 1)" by simp_all
  from up assms p have lo: "1 / 2 ^ nat j \<le> q"
    by (simp add: field_simps)
  from dn assms p have hi: "q < 1 / 2 ^ nat (j - 1)"
    by (simp add: field_simps)
  have e1: "(2::real) powi (- j) = 1 / 2 ^ nat j"
    using jl by (simp add: power_int_def field_simps)
  have e2: "(2::real) powi (- j + 1) = 1 / 2 ^ nat (j - 1)"
  proof -
    have "- j + 1 = - (j - 1)" by simp
    then show ?thesis using jl by (simp add: power_int_def field_simps nat_diff_distrib)
  qed
  have il: "ilog2 q = - j" using False by (simp add: ilog2_def m_def j_def)
  show ?thesis unfolding il e1 e2 using lo hi by linarith
qed


lemma round_half_even_close: "\<bar>real_of_int (round_half_even x) - x\<bar> \<le> 1 / 2"
proof -
  define f where "f = \<lfloor>x\<rfloor>"
  have b: "real_of_int f \<le> x" "x < real_of_int f + 1"
    unfolding f_def by linarith+
  consider "x - real_of_int f < 1 / 2" | "1 / 2 < x - real_of_int f" | "x - real_of_int f = 1 / 2"
    by linarith
  then show ?thesis
  proof cases
    case 1
    then have "round_half_even x = f" by (simp add: round_half_even_def Let_def f_def)
    with 1 b show ?thesis by simp
  next
    case 2
    then have "round_half_even x = f + 1" by (simp add: round_half_even_def Let_def f_def)
    with 2 b show ?thesis by simp
  next
    case 3
    then have "round_half_even x = f \<or> round_half_even x = f + 1"
      by (simp add: round_half_even_def Let_def f_def)
    with 3 show ?thesis by auto
  qed
qed

lemma round_double_close:
  assumes "round_double q = Some r"
  shows "\<bar>r - q\<bar> \<le> 2 powi (max (ilog2 \<bar>q\<bar> - 52) (- 1074)) / 2"
proof (cases "q = 0")
  case True
  with assms show ?thesis by (simp add: round_double_def)
next
  case False
  define e where "e = max (ilog2 \<bar>q\<bar> - 52) (- 1074)"
  define p :: real where "p = 2 powi e"
  have p: "0 < p" by (simp add: p_def)
  define k where "k = round_half_even (\<bar>q\<bar> / p)"
  from assms False have r: "r = sgn q * (real_of_int k * p)"
    by (simp add: round_double_def Let_def e_def p_def k_def split: if_splits)
  have "\<bar>r - q\<bar> = \<bar>real_of_int k * p - \<bar>q\<bar>\<bar>"
  proof (cases "0 < q")
    case True
    then show ?thesis by (simp add: r)
  next
    case neg: False
    with False have "q < 0" by simp
    then have "r - q = - (real_of_int k * p - \<bar>q\<bar>)" by (simp add: r)
    then show ?thesis by (simp only: abs_minus_cancel)
  qed
  also have "\<dots> = \<bar>real_of_int k - \<bar>q\<bar> / p\<bar> * p"
  proof -
    have "real_of_int k * p - \<bar>q\<bar> = (real_of_int k - \<bar>q\<bar> / p) * p"
      using p by (simp add: field_simps)
    then show ?thesis using p by (simp add: abs_mult)
  qed
  also have "\<dots> \<le> 1 / 2 * p"
    using round_half_even_close [of "\<bar>q\<bar> / p"] p
    unfolding k_def by (intro mult_right_mono) simp_all
  finally show ?thesis by (simp add: p_def e_def)
qed

text \<open>Evaluation at numerals.\<close>

lemma bitlen_Bit0: "bitlen (numeral (Num.Bit0 n)) = bitlen (numeral n) + 1"
  by (subst compute_bitlen) simp
lemma bitlen_Bit1: "bitlen (numeral (Num.Bit1 n)) = bitlen (numeral n) + 1"
  by (subst compute_bitlen) simp
lemma bitlen_One: "bitlen 1 = 1"
  by (subst compute_bitlen) simp
lemmas float_eval =
  round_double_def ilog2_def round_half_even_def Let_def bitlen_Bit0 bitlen_Bit1 bitlen_One

lemma literal_47:
  "round_double (471234567 / 10000000) = Some (6632036938579053 / 140737488355328)"
  by (simp add: float_eval)

lemma gps_sample_products:
  "round_double (6632036938579053 / 140737488355328 * 10000000) = Some 471234567"
  "round_double (17 / 2 * 10000000) = Some 85000000"
  "round_double (977 / 2 * 1000) = Some 488500"
  "round_double (4501347827556811 / 2251799813685248 * 100) = Some (7033355980557517 / 35184372088832)"
  "round_double (- 3 / 2 * 100) = Some (- 150)"
  "round_double (0 * 100) = Some 0"
  "round_double (90 * 100) = Some 9000"
  by (simp_all add: float_eval)

lemma sleep_250: "round_double (1 / 250) = Some (1152921504606847 / 288230376151711744)"
  by (simp add: float_eval)

lemma elapsed_samples:
  "elapsed_over_1s 1000 0" "\<not> elapsed_over_1s (2001 / 2) 1000"
  by (simp_all add: elapsed_over_1s_def float_eval)

lemmas tick_defs =
  mavlink_update_tick_def lockstep_gate_def poll_mavlink_messages_def after_poll_def
  heartbeat_step_def send_heartbeat_def send_sensor_msgs_def sleep_step_def quiet_env_def
  drain_flags_def hil_sensor_args_def py_int_def MAV_TYPE_GENERIC_def MAV_AUTOPILOT_INVALID_def

lemma py_int_truncates:
  "\<bar>real_of_int (py_int y)\<bar> \<le> \<bar>y\<bar> \<and> \<bar>y\<bar> < \<bar>real_of_int (py_int y)\<bar> + 1
   \<and> 0 \<le> real_of_int (py_int y) * y"
proof (cases "0 \<le> y")
  case True
  then have f: "0 \<le> \<lfloor>y\<rfloor>" by simp
  have "real_of_int \<lfloor>y\<rfloor> \<le> y" "y < real_of_int \<lfloor>y\<rfloor> + 1"
    by linarith+
  with True f show ?thesis
    by (simp add: py_int_def)
next
  case False
  then have c: "\<lceil>y\<rceil> \<le> 0" by (simp add: ceiling_le_iff)
  have b: "y \<le> real_of_int \<lceil>y\<rceil>" "real_of_int \<lceil>y\<rceil> < y + 1"
    by linarith+
  from c have c': "real_of_int \<lceil>y\<rceil> \<le> 0" by simp
  from False c' have "0 \<le> real_of_int \<lceil>y\<rceil> * y"
    by (simp add: mult_nonpos_nonpos)
  with False b c' show ?thesis
    by (simp add: py_int_def)
qed


subsection \<open>A drain with nothing new\<close>

lemma imu_writes:
  assumes "d ''linear_acceleration'' = Some (Vec a)" and "3 \<le> length a"
    and "d ''angular_velocity'' = Some (Vec g)" and "3 \<le> length g"
  shows "update_imu_data d s =
     (None, s\<lparr>sensor_data := (sensor_data s)\<lparr>xacc := a ! 0, yacc := a ! 1, zacc := a ! 2,
        xgyro := g ! 0, ygyro := g ! 1, zgyro := g ! 2, new_imu_data := True\<rparr>\<rparr>)"
  using assms
  by (auto simp: update_imu_data_def on_sensor_data_def run_stmts_def assign_def item_at_def)

lemma mag_writes:
  assumes "d ''magnetic_field'' = Some (Vec b)" and "3 \<le> length b"
  shows "update_mag_data d s =
     (None, s\<lparr>sensor_data := (sensor_data s)\<lparr>xmag := b ! 0, ymag := b ! 1, zmag := b ! 2,
        new_mag_data := True\<rparr>\<rparr>)"
  using assms
  by (auto simp: update_mag_data_def on_sensor_data_def run_stmts_def assign_def item_at_def)

lemma bar_writes:
  assumes "d ''temperature'' = Some tv" and "d ''absolute_pressure'' = Some pv"
    and "d ''pressure_altitude'' = Some av"
  shows "update_bar_data d s =
     (None, s\<lparr>sensor_data := (sensor_data s)\<lparr>temperature := tv, abs_pressure := pv,
        pressure_alt := av, new_bar_data := True\<rparr>\<rparr>)"
  using assms
  by (simp add: update_bar_data_def on_sensor_data_def run_stmts_def assign_def get_item_def)

lemma gps_altitude_written:
  assumes "plain_int d ''fix_type'' = Inr a1"
    and "scaled_int d ''latitude'' 10000000 = Inr a2"
    and "scaled_int d ''longitude'' 10000000 = Inr a3"
    and "scaled_int d ''altitude'' 1000 = Inr a4"
  shows "altitude (sensor_data (snd (update_gps_data d s))) = a4"
  unfolding update_gps_data_def on_sensor_data_proj run_stmts_def
  using assms
  by (simp add: assign_keeps [where f = altitude]) (simp add: assign_def)

text \<open>
  Claim C6. A drain right after a drain composes bitmask 0, and every field of the frame
  it sends is the field of the sensor message as it was before the first drain: the three
  accelerations, angular velocities and magnetic field components, the absolute pressure,
  the diff pressure, the pressure altitude and the (GPS) altitude. These fields hold the
  values last written: an IMU, magnetometer or barometer update with a well-formed
  dictionary stores the dictionary's values and changes no other payload field, the
  diff-pressure update stores its argument, and the altitude is the one
  \<^verbatim>\<open>update_gps_data\<close> stored. In the scenario of the spec, after \<^verbatim>\<open>update_imu_data\<close> with
  acceleration [1, 2, 3] and angular velocity [0, 0, 0] the first mask is 63 (0x3F) and
  the frame field \<open>xacc\<close> is 1 in both frames.
\<close>

theorem second_drain_mask_zero_payload_kept:
  "composed_mask (drained s t1 ok1) = 0
   \<and> snd (send_sensor_msgs (drained s t1 ok1) t2 ok2) =
       LogWarn ''Sending sensor msgs'' #
         (if connection s \<noteq> None \<and> ok2
          then [SensorSent
                 \<lparr>hs_time = py_int t2,
                  hs_xacc = xacc (sensor_data s), hs_yacc = yacc (sensor_data s),
                  hs_zacc = zacc (sensor_data s),
                  hs_xgyro = xgyro (sensor_data s), hs_ygyro = ygyro (sensor_data s),
                  hs_zgyro = zgyro (sensor_data s),
                  hs_xmag = xmag (sensor_data s), hs_ymag = ymag (sensor_data s),
                  hs_zmag = zmag (sensor_data s),
                  hs_abs_pressure = abs_pressure (sensor_data s),
                  hs_diff_pressure = diff_pressure (sensor_data s),
                  hs_pressure_alt = pressure_alt (sensor_data s),
                  hs_altitude = altitude (sensor_data s),
                  hs_fields_updated = 0\<rparr>]
          else [LogWarn ''Could not send sensor data through mavlink''])
   \<and> (d ''linear_acceleration'' = Some (Vec a) \<and> 3 \<le> length a
        \<and> d ''angular_velocity'' = Some (Vec g) \<and> 3 \<le> length g
      \<longrightarrow> update_imu_data d s =
            (None, s\<lparr>sensor_data := (sensor_data s)\<lparr>xacc := a ! 0, yacc := a ! 1,
               zacc := a ! 2, xgyro := g ! 0, ygyro := g ! 1, zgyro := g ! 2,
               new_imu_data := True\<rparr>\<rparr>))
   \<and> (d ''magnetic_field'' = Some (Vec b) \<and> 3 \<le> length b
      \<longrightarrow> update_mag_data d s =
            (None, s\<lparr>sensor_data := (sensor_data s)\<lparr>xmag := b ! 0, ymag := b ! 1,
               zmag := b ! 2, new_mag_data := True\<rparr>\<rparr>))
   \<and> (d ''temperature'' = Some tv \<and> d ''absolute_pressure'' = Some pv
        \<and> d ''pressure_altitude'' = Some av
      \<longrightarrow> update_bar_data d s =
            (None, s\<lparr>sensor_data := (sensor_data s)\<lparr>temperature := tv, abs_pressure := pv,
               pressure_alt := av, new_bar_data := True\<rparr>\<rparr>))
   \<and> update_press_data v s =
       (None, s\<lparr>sensor_data := (sensor_data s)\<lparr>diff_pressure := v, new_press_data := True\<rparr>\<rparr>)
   \<and> (plain_int d ''fix_type'' = Inr a1 \<and> scaled_int d ''latitude'' 10000000 = Inr a2
        \<and> scaled_int d ''longitude'' 10000000 = Inr a3
        \<and> scaled_int d ''altitude'' 1000 = Inr a4
      \<longrightarrow> altitude (sensor_data (snd (update_gps_data d s))) = a4)
   \<and> composed_mask (snd (update_imu_data imu_sample (drained s t1 ok1))) = 63
   \<and> hs_xacc (hil_sensor_args (sensor_data (snd (update_imu_data imu_sample s))) t2 0) = 1"
proof -
  have zero: "composed_mask (drained s t1 ok1) = 0"
    by (simp add: composed_mask_def send_sensor_state drained_mask_zero)
  have frame: "snd (send_sensor_msgs (drained s t1 ok1) t2 ok2) =
       LogWarn ''Sending sensor msgs'' #
         (if connection s \<noteq> None \<and> ok2
          then [SensorSent
                 \<lparr>hs_time = py_int t2,
                  hs_xacc = xacc (sensor_data s), hs_yacc = yacc (sensor_data s),
                  hs_zacc = zacc (sensor_data s),
                  hs_xgyro = xgyro (sensor_data s), hs_ygyro = ygyro (sensor_data s),
                  hs_zgyro = zgyro (sensor_data s),
                  hs_xmag = xmag (sensor_data s), hs_ymag = ymag (sensor_data s),
                  hs_zmag = zmag (sensor_data s),
                  hs_abs_pressure = abs_pressure (sensor_data s),
                  hs_diff_pressure = diff_pressure (sensor_data s),
                  hs_pressure_alt = pressure_alt (sensor_data s),
                  hs_altitude = altitude (sensor_data s),
                  hs_fields_updated = 0\<rparr>]
          else [LogWarn ''Could not send sensor data through mavlink''])"
    unfolding send_sensor_events zero
    by (simp add: send_sensor_state hil_sensor_args_drained) (simp add: hil_sensor_args_def)
  have first: "composed_mask (snd (update_imu_data imu_sample (drained s t1 ok1))) = 63"
    by (simp add: composed_mask_def imu_sample_ok drain_mask send_sensor_state drain_clears
        flag_mask_def)
  have x: "hs_xacc (hil_sensor_args (sensor_data (snd (update_imu_data imu_sample s))) t2 0) = 1"
    by (simp add: imu_sample_ok hil_sensor_args_def)
  from zero frame first x imu_writes [of d a g s] mag_writes [of d b s]
    bar_writes [of d tv pv av s] press_ok [of v s] gps_altitude_written [of d a1 a2 a3 a4 s]
  show ?thesis by blast
qed

lemma full_sample_updates:
  "snd (update_press_data (7 / 2) (snd (update_bar_data full_sample
      (snd (update_mag_data full_sample (snd (update_imu_data full_sample demo_interface))))))) =
   demo_interface\<lparr>sensor_data := SensorMsg\<lparr>xacc := 1, yacc := 2, zacc := 3,
      xgyro := 4, ygyro := 5, zgyro := 6, new_imu_data := True,
      xmag := 1 / 4, ymag := 0, zmag := - 1 / 2, new_mag_data := True,
      temperature := Num 15, abs_pressure := Num 1013, pressure_alt := Num 488,
      new_bar_data := True, diff_pressure := 7 / 2, new_press_data := True\<rparr>\<rparr>"
  by (simp add: full_sample_def update_imu_data_def update_mag_data_def update_bar_data_def
      update_press_data_def on_sensor_data_def run_stmts_def assign_def item_at_def
      get_item_def demo_interface_def)

text \<open>
  All four groups written, a drain with mask 8191, and a second drain: mask 0 and every
  written value in the frame.
\<close>

theorem second_drain_mask_zero_payload_kept_witness:
  "snd (send_sensor_msgs
        (drained
           (snd (update_press_data (7 / 2) (snd (update_bar_data full_sample
              (snd (update_mag_data full_sample
                 (snd (update_imu_data full_sample demo_interface)))))))) 10 True) 11 True) =
     [LogWarn ''Sending sensor msgs'',
      SensorSent \<lparr>hs_time = 11, hs_xacc = 1, hs_yacc = 2, hs_zacc = 3,
        hs_xgyro = 4, hs_ygyro = 5, hs_zgyro = 6, hs_xmag = 1 / 4, hs_ymag = 0,
        hs_zmag = - 1 / 2, hs_abs_pressure = Num 1013, hs_diff_pressure = 7 / 2,
        hs_pressure_alt = Num 488, hs_altitude = - 999, hs_fields_updated = 0\<rparr>]
   \<and> composed_mask
        (snd (update_press_data (7 / 2) (snd (update_bar_data full_sample
              (snd (update_mag_data full_sample
                 (snd (update_imu_data full_sample demo_interface)))))))) = 8191"
proof -
  have m: "composed_mask
        (snd (update_press_data (7 / 2) (snd (update_bar_data full_sample
              (snd (update_mag_data full_sample
                 (snd (update_imu_data full_sample demo_interface)))))))) = 8191"
    unfolding full_sample_updates
    by (simp add: composed_mask_def drain_mask flag_mask_def SensorMsg_def)
  note w = second_drain_mask_zero_payload_kept
      [of "snd (update_press_data (7 / 2) (snd (update_bar_data full_sample
              (snd (update_mag_data full_sample
                 (snd (update_imu_data full_sample demo_interface)))))))" 10 True 11 True, THEN conjunct2, THEN conjunct1]
  have f: "snd (send_sensor_msgs
        (drained
           (snd (update_press_data (7 / 2) (snd (update_bar_data full_sample
              (snd (update_mag_data full_sample
                 (snd (update_imu_data full_sample demo_interface)))))))) 10 True) 11 True) =
     [LogWarn ''Sending sensor msgs'',
      SensorSent \<lparr>hs_time = 11, hs_xacc = 1, hs_yacc = 2, hs_zacc = 3,
        hs_xgyro = 4, hs_ygyro = 5, hs_zgyro = 6, hs_xmag = 1 / 4, hs_ymag = 0,
        hs_zmag = - 1 / 2, hs_abs_pressure = Num 1013, hs_diff_pressure = 7 / 2,
        hs_pressure_alt = Num 488, hs_altitude = - 999, hs_fields_updated = 0\<rparr>]"
    using w unfolding full_sample_updates
    by (simp add: demo_interface_def SensorMsg_def py_int_def)
  from f m show ?thesis by blast
qed

subsection \<open>The producer hook\<close>

lemmas keeps_imu_payload =
  assign_keeps [where f = xacc] assign_keeps [where f = yacc] assign_keeps [where f = zacc]
  assign_keeps [where f = xgyro] assign_keeps [where f = ygyro] assign_keeps [where f = zgyro]

lemma imu_payload_frame:
  "imu_payload (snd (update_mag_data d s)) = imu_payload s"
  "imu_payload (snd (update_bar_data d s)) = imu_payload s"
  "imu_payload (snd (update_gps_data d s)) = imu_payload s"
  "imu_payload (snd (update_press_data v s)) = imu_payload s"
  "imu_payload (fst (send_sensor_msgs s t ok)) = imu_payload s"
  "imu_payload (fst (send_gps_msgs s t ok)) = imu_payload s"
  unfolding imu_payload_def update_mag_data_def update_bar_data_def update_gps_data_def
    update_press_data_def on_sensor_data_proj run_stmts_def
  by (simp_all add: keeps_imu_payload send_sensor_state drain_clears send_gps_msgs_def Let_def)


text \<open>
  Claim C9. For every argument, \<^verbatim>\<open>update_imu\<close> returns the object with
  \<^verbatim>\<open>_received_imu\<close> set and every other attribute as it was; the sensor payload is
  untouched. The accelerometer and gyro values are not changed by the other updates or by
  the two sends either, and \<^verbatim>\<open>update_imu_data\<close> does write them.
\<close>

theorem update_imu_sets_only_received_imu:
  "update_imu x s = s\<lparr>received_imu := True\<rparr>
   \<and> (update_imu x s)\<lparr>received_imu := received_imu s\<rparr> = s
   \<and> received_imu (update_imu x s)
   \<and> sensor_data (update_imu x s) = sensor_data s
   \<and> imu_payload (update_imu x s) = imu_payload s
   \<and> imu_payload (snd (update_mag_data d s)) = imu_payload s
   \<and> imu_payload (snd (update_bar_data d s)) = imu_payload s
   \<and> imu_payload (snd (update_gps_data d s)) = imu_payload s
   \<and> imu_payload (snd (update_press_data v s)) = imu_payload s
   \<and> imu_payload (fst (send_sensor_msgs s t ok)) = imu_payload s
   \<and> imu_payload (fst (send_gps_msgs s t ok)) = imu_payload s
   \<and> imu_payload (snd (update_imu_data imu_sample s)) = (1, 2, 3, 0, 0, 0)"
proof -
  have own: "update_imu x s = s\<lparr>received_imu := True\<rparr>"
    "(update_imu x s)\<lparr>received_imu := received_imu s\<rparr> = s"
    "received_imu (update_imu x s)"
    "sensor_data (update_imu x s) = sensor_data s"
    "imu_payload (update_imu x s) = imu_payload s"
    by (simp_all add: update_imu_def imu_payload_def)
  have writes: "imu_payload (snd (update_imu_data imu_sample s)) = (1, 2, 3, 0, 0, 0)"
    by (simp add: imu_sample_ok imu_payload_def)
  show ?thesis
    by (intro conjI own writes imu_payload_frame)
qed

theorem update_imu_sets_only_received_imu_witness:
  "update_imu imu_sample demo_interface = demo_interface\<lparr>received_imu := True\<rparr>
   \<and> sensor_data (update_imu imu_sample demo_interface) = SensorMsg"
  using update_imu_sets_only_received_imu [of imu_sample demo_interface Map.empty 0 0 True]
  by (simp add: demo_interface_def)

subsection \<open>GPS updates\<close>







lemma gps_all_keys:
  assumes "d ''fix_type'' = Some (Num fx)"
    and "d ''latitude'' = Some (Num lat)" and "round_double (lat * 10000000) = Some lat'"
    and "d ''longitude'' = Some (Num lon)" and "round_double (lon * 10000000) = Some lon'"
    and "d ''altitude'' = Some (Num alt)" and "round_double (alt * 1000) = Some alt'"
    and "d ''eph'' = Some (Num eh)"
    and "d ''epv'' = Some (Num ev)"
    and "d ''speed'' = Some (Num v)" and "round_double (v * 100) = Some v'"
    and "d ''velocity_north'' = Some (Num vn)" and "round_double (vn * 100) = Some vn'"
    and "d ''velocity_east'' = Some (Num ve)" and "round_double (ve * 100) = Some ve'"
    and "d ''velocity_down'' = Some (Num vd)" and "round_double (vd * 100) = Some vd'"
    and "d ''cog'' = Some (Num cg)" and "round_double (cg * 100) = Some cg'"
    and "d ''sattelites_visible'' = Some (Num sat)"
  shows "update_gps_data d s =
     (None,
      s\<lparr>sensor_data := (sensor_data s)\<lparr>fix_type := py_int fx, latitude_deg := py_int lat',
         longitude_deg := py_int lon', altitude := py_int alt', eph := py_int eh,
         epv := py_int ev, velocity := py_int v', velocity_north := py_int vn',
         velocity_east := py_int ve', velocity_down := py_int vd', cog := py_int cg',
         satellites_visible := py_int sat, new_gps_data := True\<rparr>\<rparr>)"
  unfolding update_gps_data_def on_sensor_data_def run_stmts_def
  using assms by (simp add: assign_def plain_int_def scaled_int_def)

text \<open>
  Claim C8. With the twelve keys the source reads present as floats and the seven
  products finite, \<^verbatim>\<open>update_gps_data\<close> stores \<^verbatim>\<open>int\<close> of the double product of latitude
  and longitude with 10000000, of altitude with 1000, of speed, the three velocities
  and course with 100, and \<^verbatim>\<open>int\<close> of the other four; the next \<^verbatim>\<open>send_gps_msgs\<close> puts
  these integers in the frame. \<^verbatim>\<open>int\<close> truncates toward zero: the result is no larger in
  magnitude than its argument, less than 1 away, and of the same sign.
\<close>

theorem update_gps_data_fixed_point:
  assumes "d ''fix_type'' = Some (Num fx)"
    and "d ''latitude'' = Some (Num lat)" and "round_double (lat * 10000000) = Some lat'"
    and "d ''longitude'' = Some (Num lon)" and "round_double (lon * 10000000) = Some lon'"
    and "d ''altitude'' = Some (Num alt)" and "round_double (alt * 1000) = Some alt'"
    and "d ''eph'' = Some (Num eh)"
    and "d ''epv'' = Some (Num ev)"
    and "d ''speed'' = Some (Num v)" and "round_double (v * 100) = Some v'"
    and "d ''velocity_north'' = Some (Num vn)" and "round_double (vn * 100) = Some vn'"
    and "d ''velocity_east'' = Some (Num ve)" and "round_double (ve * 100) = Some ve'"
    and "d ''velocity_down'' = Some (Num vd)" and "round_double (vd * 100) = Some vd'"
    and "d ''cog'' = Some (Num cg)" and "round_double (cg * 100) = Some cg'"
    and "d ''sattelites_visible'' = Some (Num sat)"
  shows "update_gps_data d s =
     (None,
      s\<lparr>sensor_data := (sensor_data s)\<lparr>fix_type := py_int fx, latitude_deg := py_int lat',
         longitude_deg := py_int lon', altitude := py_int alt', eph := py_int eh,
         epv := py_int ev, velocity := py_int v', velocity_north := py_int vn',
         velocity_east := py_int ve', velocity_down := py_int vd', cog := py_int cg',
         satellites_visible := py_int sat, new_gps_data := True\<rparr>\<rparr>)
   \<and> snd (send_gps_msgs (snd (update_gps_data d s)) t ok) =
       LogWarn ''Sending GPS msgs'' #
         (if connection s \<noteq> None \<and> ok
          then [GpsSent \<lparr>hg_time = py_int t, hg_fix_type = py_int fx, hg_lat = py_int lat',
                  hg_lon = py_int lon', hg_alt = py_int alt', hg_eph = py_int eh,
                  hg_epv = py_int ev, hg_vel = py_int v', hg_vn = py_int vn',
                  hg_ve = py_int ve', hg_vd = py_int vd', hg_cog = py_int cg',
                  hg_satellites_visible = py_int sat\<rparr>]
          else [LogWarn ''Could not send gps data through mavlink''])
   \<and> \<bar>real_of_int (py_int y)\<bar> \<le> \<bar>y\<bar> \<and> \<bar>y\<bar> < \<bar>real_of_int (py_int y)\<bar> + 1
   \<and> 0 \<le> real_of_int (py_int y) * y"
proof -
  note upd = gps_all_keys [OF assms, of s]
  have "snd (send_gps_msgs (snd (update_gps_data d s)) t ok) =
       LogWarn ''Sending GPS msgs'' #
         (if connection s \<noteq> None \<and> ok
          then [GpsSent \<lparr>hg_time = py_int t, hg_fix_type = py_int fx, hg_lat = py_int lat',
                  hg_lon = py_int lon', hg_alt = py_int alt', hg_eph = py_int eh,
                  hg_epv = py_int ev, hg_vel = py_int v', hg_vn = py_int vn',
                  hg_ve = py_int ve', hg_vd = py_int vd', hg_cog = py_int cg',
                  hg_satellites_visible = py_int sat\<rparr>]
          else [LogWarn ''Could not send gps data through mavlink''])"
    unfolding upd by (simp add: send_gps_msgs_def hil_gps_args_def Let_def)
  with upd py_int_truncates [of y] show ?thesis by blast
qed

text \<open>
  The sample with latitude 47.1234567: the stored and sent latitude is 471234567, and the
  speed 1.999 is stored as 199, not 200.
\<close>

theorem update_gps_data_fixed_point_witness:
  "round_double (471234567 / 10000000) = Some (6632036938579053 / 140737488355328)
   \<and> latitude_deg (sensor_data (snd (update_gps_data gps_sample demo_interface))) = 471234567
   \<and> snd (send_gps_msgs (snd (update_gps_data gps_sample demo_interface)) (3 / 2) True) =
       [LogWarn ''Sending GPS msgs'',
        GpsSent \<lparr>hg_time = 1, hg_fix_type = 3, hg_lat = 471234567, hg_lon = 85000000,
          hg_alt = 488500, hg_eph = 1, hg_epv = 1, hg_vel = 199, hg_vn = - 150, hg_ve = 0,
          hg_vd = 0, hg_cog = 9000, hg_satellites_visible = 10\<rparr>]"
proof -
  have keys:
    "gps_sample ''fix_type'' = Some (Num 3)"
    "gps_sample ''latitude'' = Some (Num (6632036938579053 / 140737488355328))"
    "gps_sample ''longitude'' = Some (Num (17 / 2))"
    "gps_sample ''altitude'' = Some (Num (977 / 2))"
    "gps_sample ''eph'' = Some (Num 1)"
    "gps_sample ''epv'' = Some (Num 1)"
    "gps_sample ''speed'' = Some (Num (4501347827556811 / 2251799813685248))"
    "gps_sample ''velocity_north'' = Some (Num (- 3 / 2))"
    "gps_sample ''velocity_east'' = Some (Num 0)"
    "gps_sample ''velocity_down'' = Some (Num 0)"
    "gps_sample ''cog'' = Some (Num 90)"
    "gps_sample ''sattelites_visible'' = Some (Num 10)"
    by (simp_all add: gps_sample_def)
  note p = gps_sample_products
  note w = update_gps_data_fixed_point [OF keys(1) keys(2) p(1) keys(3) p(2) keys(4) p(3) keys(5) keys(6)
      keys(7) p(4) keys(8) p(5) keys(9) p(6) keys(10) p(6) keys(11) p(7) keys(12),
      of demo_interface "3 / 2" True 0]
  have ints: "py_int 3 = 3" "py_int 471234567 = 471234567" "py_int 85000000 = 85000000"
    "py_int 488500 = 488500" "py_int 1 = 1"
    "py_int (7033355980557517 / 35184372088832) = 199" "py_int (- 150) = - 150"
    "py_int 0 = 0" "py_int 9000 = 9000" "py_int 10 = 10" "py_int (3 / 2) = 1"
    by (simp_all add: py_int_def)
  have conn: "connection demo_interface \<noteq> None"
    by (simp add: demo_interface_def)
  from w [THEN conjunct1] have upd: "update_gps_data gps_sample demo_interface =
      (None, demo_interface\<lparr>sensor_data := (sensor_data demo_interface)\<lparr>fix_type := 3,
         latitude_deg := 471234567, longitude_deg := 85000000, altitude := 488500,
         eph := 1, epv := 1, velocity := 199, velocity_north := - 150, velocity_east := 0,
         velocity_down := 0, cog := 9000, satellites_visible := 10,
         new_gps_data := True\<rparr>\<rparr>)"
    by (simp add: ints)
  from w [THEN conjunct2, THEN conjunct1] conn
  have sent: "snd (send_gps_msgs (snd (update_gps_data gps_sample demo_interface)) (3 / 2) True) =
       [LogWarn ''Sending GPS msgs'',
        GpsSent \<lparr>hg_time = 1, hg_fix_type = 3, hg_lat = 471234567, hg_lon = 85000000,
          hg_alt = 488500, hg_eph = 1, hg_epv = 1, hg_vel = 199, hg_vn = - 150, hg_ve = 0,
          hg_vd = 0, hg_cog = 9000, hg_satellites_visible = 10\<rparr>]"
    by (simp add: ints)
  have lat: "latitude_deg (sensor_data (snd (update_gps_data gps_sample demo_interface))) =
      471234567"
    by (simp add: upd)
  show ?thesis
    by (intro conjI literal_47 lat sent)
qed








subsection \<open>The lockstep gate\<close>

lemma spin_wait_exit:
  "spin_wait s acts = Some s' \<Longrightarrow> received_imu s' \<or> \<not> is_running s'"
  by (induction acts arbitrary: s) (auto split: if_splits)

lemma spin_wait_idle:
  "\<not> received_imu s \<Longrightarrow> is_running s \<Longrightarrow> set acts \<subseteq> {Idle} \<Longrightarrow> spin_wait s acts = None"
  by (induction acts arbitrary: s) auto

lemma env_step_lockstep_flags:
  "env_step a (s\<lparr>enable_lockstep := b, received_first_actuator := c\<rparr>) =
     (env_step a s)\<lparr>enable_lockstep := b, received_first_actuator := c\<rparr>"
  by (cases a) (simp_all add: update_imu_def)

lemma spin_wait_lockstep_flags:
  "spin_wait (s\<lparr>enable_lockstep := b, received_first_actuator := c\<rparr>) acts =
     map_option (\<lambda>s'. s'\<lparr>enable_lockstep := b, received_first_actuator := c\<rparr>)
       (spin_wait s acts)"
  by (induction acts arbitrary: s) (simp_all add: env_step_lockstep_flags)

text \<open>
  Claim C2, amended. The wait step is guarded by \<^verbatim>\<open>_received_first_imu\<close> alone. When that
  flag is true the tick leaves the wait step only in a state where \<^verbatim>\<open>_received_imu\<close> is
  true or \<^verbatim>\<open>_is_running\<close> is false, and while no other thread acts it does not leave it
  (the tick does not return); when the flag is false the step never blocks. The lockstep
  flag and \<^verbatim>\<open>_received_first_actuator\<close> have no influence on the step.
\<close>

theorem lockstep_gate_waits_on_first_imu:
  "(received_first_imu s \<and> lockstep_gate s acts = Some s'
      \<longrightarrow> received_imu s' \<or> \<not> is_running s')
   \<and> (received_first_imu s \<and> \<not> received_imu s \<and> is_running s \<and> set acts \<subseteq> {Idle}
      \<longrightarrow> lockstep_gate s acts = None \<and> mavlink_update_tick s (env\<lparr>sched := acts\<rparr>) = NoReturn)
   \<and> (\<not> received_first_imu s \<longrightarrow> lockstep_gate s acts = Some s)
   \<and> lockstep_gate (s\<lparr>enable_lockstep := b, received_first_actuator := c\<rparr>) acts =
       map_option (\<lambda>s'. s'\<lparr>enable_lockstep := b, received_first_actuator := c\<rparr>)
         (lockstep_gate s acts)"
  by (auto simp: lockstep_gate_def mavlink_update_tick_def spin_wait_lockstep_flags
      spin_wait_idle dest: spin_wait_exit)

theorem lockstep_gate_waits_on_first_imu_witness:
  "lockstep_gate (awaiting_peer\<lparr>received_first_imu := True\<rparr>) [Idle, ProducerImu, Idle] =
     Some (awaiting_peer\<lparr>received_first_imu := True, received_imu := True\<rparr>)
   \<and> lockstep_gate (awaiting_peer\<lparr>received_first_imu := True\<rparr>) [Idle, Idle] = None
   \<and> lockstep_gate (awaiting_peer\<lparr>received_first_imu := True\<rparr>) [StopSignal] =
     Some (awaiting_peer\<lparr>received_first_imu := True, is_running := False\<rparr>)
   \<and> lockstep_gate awaiting_peer [Idle, Idle] = Some awaiting_peer"
  using lockstep_gate_waits_on_first_imu [of "awaiting_peer\<lparr>received_first_imu := True\<rparr>" "[Idle, Idle]" awaiting_peer
      "quiet_env 0" True False]
    lockstep_gate_waits_on_first_imu [of awaiting_peer "[Idle, Idle]" awaiting_peer "quiet_env 0" True False]
  by (simp add: lockstep_gate_def awaiting_peer_def demo_interface_def update_imu_def)

text \<open>
  With lockstep enabled and an actuator message received earlier the gate lets the tick
  through although no IMU sample arrived and the loop is running; with lockstep disabled
  and \<^verbatim>\<open>_received_first_imu\<close> set it blocks.
\<close>

theorem lockstep_gate_waits_on_first_imu_counterexample:
  "enable_lockstep after_first_actuator \<and> received_first_actuator after_first_actuator
   \<and> is_running after_first_actuator \<and> \<not> received_imu after_first_actuator
   \<and> lockstep_gate after_first_actuator [] = Some after_first_actuator
   \<and> forget_events (mavlink_update_tick after_first_actuator (quiet_env 1000)) =
       Done (after_first_actuator\<lparr>last_heartbeat_sent_time := 1000\<rparr>)
   \<and> lockstep_gate (after_first_actuator\<lparr>enable_lockstep := False, received_first_imu := True\<rparr>)
       [Idle, Idle, Idle] = None"
  by (simp add: tick_defs forget_events_def after_first_actuator_def awaiting_peer_def
      demo_interface_def SensorMsg_def sleep_250 elapsed_samples)

subsection \<open>The tick\<close>

lemma env_step_keeps:
  "last_heartbeat_sent_time (env_step a s) = last_heartbeat_sent_time s"
  "received_first_hearbeat (env_step a s) = received_first_hearbeat s"
  "connection (env_step a s) = connection s"
  "sensor_data (env_step a s) = sensor_data s"
  "update_rate (env_step a s) = update_rate s"
  by (cases a; simp add: update_imu_def)+

lemma fold_env_step_keeps:
  "last_heartbeat_sent_time (fold env_step acts s) = last_heartbeat_sent_time s"
  "received_first_hearbeat (fold env_step acts s) = received_first_hearbeat s"
  "connection (fold env_step acts s) = connection s"
  "sensor_data (fold env_step acts s) = sensor_data s"
  "update_rate (fold env_step acts s) = update_rate s"
  by (induction acts arbitrary: s; simp add: env_step_keeps)+

lemma spin_wait_keeps:
  assumes "spin_wait s acts = Some s'"
  shows "last_heartbeat_sent_time s' = last_heartbeat_sent_time s"
    and "received_first_hearbeat s' = received_first_hearbeat s"
    and "connection s' = connection s"
    and "sensor_data s' = sensor_data s"
    and "update_rate s' = update_rate s"
  using assms
  by (induction acts arbitrary: s; auto simp: env_step_keeps split: if_splits)+

lemma lockstep_gate_keeps:
  assumes "lockstep_gate s acts = Some s'"
  shows "last_heartbeat_sent_time s' = last_heartbeat_sent_time s"
    and "received_first_hearbeat s' = received_first_hearbeat s"
    and "connection s' = connection s"
    and "sensor_data s' = sensor_data s"
    and "update_rate s' = update_rate s"
  using assms spin_wait_keeps [of s acts s']
  by (auto simp: lockstep_gate_def split: if_splits)

lemma recv_loop_events:
  "recv_loop needs got msgs = Some (rest, evs) \<Longrightarrow>
     filter is_send evs = [] \<and> (evs \<noteq> [] \<and> (\<exists>b. Recv b \<in> set evs))"
  by (induction msgs arbitrary: rest evs)
     (auto split: if_splits option.splits)

lemma poll_Done:
  assumes "poll_mavlink_messages s msgs = Done (s', evs)"
  shows "s' = (if received_first_hearbeat s then s\<lparr>received_actuator := False\<rparr> else s)"
    and "filter is_send evs = []"
    and "received_first_hearbeat s \<longrightarrow> connection s \<noteq> None"
    and "\<not> received_first_hearbeat s \<longrightarrow> evs = []"
  using assms recv_loop_events
  by (auto simp: poll_mavlink_messages_def Let_def split: if_splits option.splits)

lemma heartbeat_step_Done:
  assumes "heartbeat_step s env = Done (s', evs)"
  shows "(s', evs) =
     (if elapsed_over_1s (now_check env) (last_heartbeat_sent_time s)
          \<or> \<not> received_first_hearbeat s
      then (s\<lparr>last_heartbeat_sent_time := now_record env\<rparr>,
            [LogWarn ''Sending heartbeat'',
             HeartbeatSent MAV_TYPE_GENERIC MAV_AUTOPILOT_INVALID 0 0 0])
      else (s, []))"
    and "\<not> received_first_hearbeat s \<longrightarrow> connection s \<noteq> None"
  using assms
  by (auto simp: heartbeat_step_def send_heartbeat_def split: if_splits outcome.splits)

lemma sleep_step_Done:
  "sleep_step s = Done evs \<Longrightarrow> \<exists>d. evs = [Sleep d] \<and> round_double (1 / update_rate s) = Some d"
  by (auto simp: sleep_step_def split: if_splits option.splits)

lemma tick_DoneE:
  assumes "mavlink_update_tick s env = Done (s', evs)"
  obtains s1 s2 pevs s3 hevs d where
    "lockstep_gate s (sched env) = Some s1"
    "poll_mavlink_messages (s1\<lparr>received_imu := False\<rparr>) (inbox env) = Done (s2, pevs)"
    "heartbeat_step s2 env = Done (s3, hevs)"
    "round_double (1 / update_rate s3) = Some d"
    "s' = fold env_step (during_sleep env) (drained s3 (now_sensor env) (sensor_ok env))"
    "evs = pevs @ hevs @ snd (send_sensor_msgs s3 (now_sensor env) (sensor_ok env)) @ [Sleep d]"
proof -
  from assms obtain s1 where g: "lockstep_gate s (sched env) = Some s1"
    by (auto simp: mavlink_update_tick_def split: option.splits)
  with assms obtain s2 pevs where
    p: "poll_mavlink_messages (s1\<lparr>received_imu := False\<rparr>) (inbox env) = Done (s2, pevs)"
    and a: "after_poll s2 pevs env = Done (s', evs)"
    by (auto simp: mavlink_update_tick_def split: outcome.splits)
  from a obtain s3 hevs where h: "heartbeat_step s2 env = Done (s3, hevs)"
    by (auto simp: after_poll_def split: outcome.splits)
  with a obtain sevs where
    sl: "sleep_step (drained s3 (now_sensor env) (sensor_ok env)) = Done sevs"
    and s': "s' = fold env_step (during_sleep env) (drained s3 (now_sensor env) (sensor_ok env))"
    and evs: "evs = pevs @ hevs @ snd (send_sensor_msgs s3 (now_sensor env) (sensor_ok env)) @ sevs"
    by (auto simp: after_poll_def split_beta split: outcome.splits)
  from sleep_step_Done [OF sl] obtain d where
    d: "sevs = [Sleep d]" "round_double (1 / update_rate s3) = Some d"
    by (auto simp: send_sensor_msgs_def split_beta)
  from g p h d s' evs that show thesis by blast
qed


lemma tick_heartbeat:
  assumes "mavlink_update_tick s env = Done (s', evs)"
  shows "filter is_heartbeat evs =
       (if elapsed_over_1s (now_check env) (last_heartbeat_sent_time s)
            \<or> \<not> received_first_hearbeat s
        then [HeartbeatSent MAV_TYPE_GENERIC MAV_AUTOPILOT_INVALID 0 0 0] else [])"
    and "last_heartbeat_sent_time s' =
       (if elapsed_over_1s (now_check env) (last_heartbeat_sent_time s)
            \<or> \<not> received_first_hearbeat s
        then now_record env else last_heartbeat_sent_time s)"
proof -
  from assms obtain s1 s2 pevs s3 hevs d where
    g: "lockstep_gate s (sched env) = Some s1"
    and p: "poll_mavlink_messages (s1\<lparr>received_imu := False\<rparr>) (inbox env) = Done (s2, pevs)"
    and h: "heartbeat_step s2 env = Done (s3, hevs)"
    and s': "s' = fold env_step (during_sleep env) (drained s3 (now_sensor env) (sensor_ok env))"
    and evs: "evs = pevs @ hevs @ snd (send_sensor_msgs s3 (now_sensor env) (sensor_ok env)) @ [Sleep d]"
    by (rule tick_DoneE)
  have s2: "last_heartbeat_sent_time s2 = last_heartbeat_sent_time s"
    "received_first_hearbeat s2 = received_first_hearbeat s"
    using poll_Done(1) [OF p] lockstep_gate_keeps(1,2) [OF g] by (simp_all split: if_splits)
  have pe: "filter is_heartbeat pevs = []"
  proof -
    have "\<And>e. is_heartbeat e \<Longrightarrow> is_send e" by (case_tac e) simp_all
    with poll_Done(2) [OF p] show ?thesis
      by (auto simp: filter_empty_conv)
  qed
  have se: "filter is_heartbeat (snd (send_sensor_msgs s3 (now_sensor env) (sensor_ok env))) = []"
    by (simp add: send_sensor_events)
  note hd = heartbeat_step_Done(1) [OF h, unfolded s2]
  show "filter is_heartbeat evs =
       (if elapsed_over_1s (now_check env) (last_heartbeat_sent_time s)
            \<or> \<not> received_first_hearbeat s
        then [HeartbeatSent MAV_TYPE_GENERIC MAV_AUTOPILOT_INVALID 0 0 0] else [])"
    using hd by (auto simp: evs pe se split: if_splits)
  have "last_heartbeat_sent_time s' = last_heartbeat_sent_time s3"
    by (simp add: s' fold_env_step_keeps send_sensor_msgs_def split_beta)
  then show "last_heartbeat_sent_time s' =
       (if elapsed_over_1s (now_check env) (last_heartbeat_sent_time s)
            \<or> \<not> received_first_hearbeat s
        then now_record env else last_heartbeat_sent_time s)"
    using hd s2 by (auto split: if_splits)
qed

lemma tick_before_first_heartbeat:
  assumes nf: "\<not> received_first_hearbeat s"
    and t: "mavlink_update_tick s env = Done (s', evs)"
  shows "filter is_send evs =
       HeartbeatSent MAV_TYPE_GENERIC MAV_AUTOPILOT_INVALID 0 0 0 #
       (if sensor_ok env
        then [SensorSent (hil_sensor_args (sensor_data s) (now_sensor env) (composed_mask s))]
        else [])"
    and "Recv b \<notin> set evs"
proof -
  from t obtain s1 s2 pevs s3 hevs d where
    g: "lockstep_gate s (sched env) = Some s1"
    and p: "poll_mavlink_messages (s1\<lparr>received_imu := False\<rparr>) (inbox env) = Done (s2, pevs)"
    and h: "heartbeat_step s2 env = Done (s3, hevs)"
    and evs: "evs = pevs @ hevs @ snd (send_sensor_msgs s3 (now_sensor env) (sensor_ok env)) @ [Sleep d]"
    by (rule tick_DoneE)
  have f1: "\<not> received_first_hearbeat (s1\<lparr>received_imu := False\<rparr>)"
    using lockstep_gate_keeps(2) [OF g] nf by simp
  from poll_Done(1) [OF p] poll_Done(4) [OF p] f1
  have s2: "s2 = s1\<lparr>received_imu := False\<rparr>" and pevs: "pevs = []" by simp_all
  have f2: "\<not> received_first_hearbeat s2" using f1 s2 by simp
  from heartbeat_step_Done [OF h] f2
  have s3: "s3 = s2\<lparr>last_heartbeat_sent_time := now_record env\<rparr>"
    and hevs: "hevs = [LogWarn ''Sending heartbeat'',
        HeartbeatSent MAV_TYPE_GENERIC MAV_AUTOPILOT_INVALID 0 0 0]"
    and c2: "connection s2 \<noteq> None"
    by simp_all
  have sd: "sensor_data s3 = sensor_data s" "connection s3 \<noteq> None"
    using s3 s2 c2 lockstep_gate_keeps(4) [OF g] by simp_all
  have m: "composed_mask s3 = composed_mask s"
    by (simp add: composed_mask_def sd)
  show "filter is_send evs =
       HeartbeatSent MAV_TYPE_GENERIC MAV_AUTOPILOT_INVALID 0 0 0 #
       (if sensor_ok env
        then [SensorSent (hil_sensor_args (sensor_data s) (now_sensor env) (composed_mask s))]
        else [])"
    using sd by (simp add: evs pevs hevs send_sensor_events m)
  show "Recv b \<notin> set evs"
    by (simp add: evs pevs hevs send_sensor_events)
qed


lemma tick_awaiting_first:
  "mavlink_update_tick awaiting_peer (quiet_env 1000) =
     Done (awaiting_peer\<lparr>last_heartbeat_sent_time := 1000\<rparr>,
       [LogWarn ''Sending heartbeat'', HeartbeatSent 0 8 0 0 0,
        LogWarn ''Sending sensor msgs'',
        SensorSent \<lparr>hs_time = 1000, hs_xacc = 0, hs_yacc = 0, hs_zacc = 0,
          hs_xgyro = 0, hs_ygyro = 0, hs_zgyro = 0, hs_xmag = 0, hs_ymag = 0, hs_zmag = 0,
          hs_abs_pressure = Num 0, hs_diff_pressure = 0, hs_pressure_alt = Num 0,
          hs_altitude = - 999, hs_fields_updated = 0\<rparr>,
        Sleep (1152921504606847 / 288230376151711744)])"
  by (simp add: tick_defs awaiting_peer_def demo_interface_def SensorMsg_def sleep_250
      elapsed_samples)

lemma tick_awaiting_second:
  "mavlink_update_tick (awaiting_peer\<lparr>last_heartbeat_sent_time := 1000\<rparr>) (quiet_env (2001 / 2)) =
     Done (awaiting_peer\<lparr>last_heartbeat_sent_time := 2001 / 2\<rparr>,
       [LogWarn ''Sending heartbeat'', HeartbeatSent 0 8 0 0 0,
        LogWarn ''Sending sensor msgs'',
        SensorSent \<lparr>hs_time = 1000, hs_xacc = 0, hs_yacc = 0, hs_zacc = 0,
          hs_xgyro = 0, hs_ygyro = 0, hs_zgyro = 0, hs_xmag = 0, hs_ymag = 0, hs_zmag = 0,
          hs_abs_pressure = Num 0, hs_diff_pressure = 0, hs_pressure_alt = Num 0,
          hs_altitude = - 999, hs_fields_updated = 0\<rparr>,
        Sleep (1152921504606847 / 288230376151711744)])"
  by (simp add: tick_defs awaiting_peer_def demo_interface_def SensorMsg_def sleep_250
      elapsed_samples)

lemma tick_streaming_first:
  "mavlink_update_tick streaming (quiet_env 1000) =
     Done (streaming\<lparr>last_heartbeat_sent_time := 1000\<rparr>,
       [Recv False, LogMsg None,
        LogWarn ''Sending heartbeat'', HeartbeatSent 0 8 0 0 0,
        LogWarn ''Sending sensor msgs'',
        SensorSent \<lparr>hs_time = 1000, hs_xacc = 0, hs_yacc = 0, hs_zacc = 0,
          hs_xgyro = 0, hs_ygyro = 0, hs_zgyro = 0, hs_xmag = 0, hs_ymag = 0, hs_zmag = 0,
          hs_abs_pressure = Num 0, hs_diff_pressure = 0, hs_pressure_alt = Num 0,
          hs_altitude = - 999, hs_fields_updated = 0\<rparr>,
        Sleep (1152921504606847 / 288230376151711744)])"
  by (simp add: tick_defs streaming_def demo_interface_def SensorMsg_def sleep_250
      elapsed_samples)

lemma tick_streaming_second:
  "mavlink_update_tick (streaming\<lparr>last_heartbeat_sent_time := 1000\<rparr>) (quiet_env (2001 / 2)) =
     Done (streaming\<lparr>last_heartbeat_sent_time := 1000\<rparr>,
       [Recv False, LogMsg None,
        LogWarn ''Sending sensor msgs'',
        SensorSent \<lparr>hs_time = 1000, hs_xacc = 0, hs_yacc = 0, hs_zacc = 0,
          hs_xgyro = 0, hs_ygyro = 0, hs_zgyro = 0, hs_xmag = 0, hs_ymag = 0, hs_zmag = 0,
          hs_abs_pressure = Num 0, hs_diff_pressure = 0, hs_pressure_alt = Num 0,
          hs_altitude = - 999, hs_fields_updated = 0\<rparr>,
        Sleep (1152921504606847 / 288230376151711744)])"
  by (simp add: tick_defs streaming_def demo_interface_def SensorMsg_def sleep_250
      elapsed_samples)


text \<open>
  Claim C3, amended. In every tick that completes, exactly one heartbeat frame is sent
  and the clock reading after the send is recorded if the double difference between the
  clock and the recorded send time exceeds 1.0 or the peer's first heartbeat has not been
  received; otherwise no heartbeat frame is sent and the recorded time stays. Where the
  difference is itself a double, the test is that it exceeds 1.
\<close>

theorem heartbeat_sent_iff_elapsed_or_awaiting_peer:
  assumes "mavlink_update_tick s env = Done (s', evs)"
  shows "filter is_heartbeat evs =
       (if elapsed_over_1s (now_check env) (last_heartbeat_sent_time s)
            \<or> \<not> received_first_hearbeat s
        then [HeartbeatSent MAV_TYPE_GENERIC MAV_AUTOPILOT_INVALID 0 0 0] else [])
   \<and> last_heartbeat_sent_time s' =
       (if elapsed_over_1s (now_check env) (last_heartbeat_sent_time s)
            \<or> \<not> received_first_hearbeat s
        then now_record env else last_heartbeat_sent_time s)
   \<and> (round_double (now_check env - last_heartbeat_sent_time s) =
         Some (now_check env - last_heartbeat_sent_time s)
       \<longrightarrow> elapsed_over_1s (now_check env) (last_heartbeat_sent_time s) =
           (1 < now_check env - last_heartbeat_sent_time s))"
  using tick_heartbeat [OF assms] by (simp add: elapsed_over_1s_def)

theorem heartbeat_sent_iff_elapsed_or_awaiting_peer_witness:
  "filter is_heartbeat (tick_events streaming (quiet_env 1000)) = [HeartbeatSent 0 8 0 0 0]
   \<and> last_heartbeat_sent_time (tick_state streaming (quiet_env 1000)) = 1000
   \<and> filter is_heartbeat
        (tick_events (streaming\<lparr>last_heartbeat_sent_time := 1000\<rparr>) (quiet_env (2001 / 2))) = []
   \<and> last_heartbeat_sent_time
        (tick_state (streaming\<lparr>last_heartbeat_sent_time := 1000\<rparr>) (quiet_env (2001 / 2))) = 1000"
  using heartbeat_sent_iff_elapsed_or_awaiting_peer [OF tick_streaming_first]
    heartbeat_sent_iff_elapsed_or_awaiting_peer [OF tick_streaming_second]
  by (simp add: tick_events_def tick_state_def tick_streaming_first tick_streaming_second)

text \<open>
  Two ticks half a second apart while the peer's heartbeat is awaited: the second tick
  sends a heartbeat although one was sent 0.5 s before.
\<close>

theorem heartbeat_sent_iff_elapsed_or_awaiting_peer_counterexample:
  "tick_state awaiting_peer (quiet_env 1000) = awaiting_peer\<lparr>last_heartbeat_sent_time := 1000\<rparr>
   \<and> filter is_heartbeat (tick_events awaiting_peer (quiet_env 1000)) =
       [HeartbeatSent 0 8 0 0 0]
   \<and> \<not> (1 < 2001 / 2 - last_heartbeat_sent_time (tick_state awaiting_peer (quiet_env 1000)))
   \<and> filter is_heartbeat
        (tick_events (tick_state awaiting_peer (quiet_env 1000)) (quiet_env (2001 / 2))) =
       [HeartbeatSent 0 8 0 0 0]
   \<and> last_heartbeat_sent_time
        (tick_state (tick_state awaiting_peer (quiet_env 1000)) (quiet_env (2001 / 2))) = 2001 / 2"
  by (simp add: tick_events_def tick_state_def tick_awaiting_first tick_awaiting_second)

lemma poll_awaiting:
  "\<not> received_first_hearbeat s \<Longrightarrow> poll_mavlink_messages s msgs = Done (s, [])"
  by (simp add: poll_mavlink_messages_def)

lemma tick_awaiting_total:
  assumes nf: "\<not> received_first_hearbeat s"
  shows "mavlink_update_tick s env =
     (case lockstep_gate s (sched env) of
        None \<Rightarrow> NoReturn
      | Some s1 \<Rightarrow>
          (if connection s = None
           then Raised AttributeError (s1\<lparr>received_imu := False\<rparr>, [LogWarn ''Sending heartbeat''])
           else if \<not> heartbeat_ok env
           then Raised SendError (s1\<lparr>received_imu := False\<rparr>, [LogWarn ''Sending heartbeat''])
           else after_poll (s1\<lparr>received_imu := False\<rparr>) [] env))"
proof (cases "lockstep_gate s (sched env)")
  case None
  then show ?thesis by (simp add: mavlink_update_tick_def)
next
  case (Some s1)
  note k = lockstep_gate_keeps [OF Some]
  have p: "poll_mavlink_messages (s1\<lparr>received_imu := False\<rparr>) (inbox env) =
      Done (s1\<lparr>received_imu := False\<rparr>, [])"
    using nf k(2) by (simp add: poll_mavlink_messages_def)
  show ?thesis
    using nf k(2,3)
    by (simp add: mavlink_update_tick_def Some p after_poll_def heartbeat_step_def
        send_heartbeat_def)
qed


lemma sleep_step_events: "filter is_send (case sleep_step s of Done evs \<Rightarrow> evs | Raised e evs \<Rightarrow> evs | NoReturn \<Rightarrow> []) = []
  \<and> Recv b \<notin> set (case sleep_step s of Done evs \<Rightarrow> evs | Raised e evs \<Rightarrow> evs | NoReturn \<Rightarrow> [])
  \<and> sleep_step s \<noteq> NoReturn"
  by (simp add: sleep_step_def split: option.splits)

lemma after_poll_awaiting:
  assumes nf: "\<not> received_first_hearbeat s" and c: "connection s \<noteq> None"
    and ok: "heartbeat_ok env"
  shows "after_poll s [] env \<noteq> NoReturn"
    and "filter is_send
       (case after_poll s [] env of Done (s', evs) \<Rightarrow> evs | Raised e (s', evs) \<Rightarrow> evs
          | NoReturn \<Rightarrow> []) =
       HeartbeatSent MAV_TYPE_GENERIC MAV_AUTOPILOT_INVALID 0 0 0 #
       (if sensor_ok env
        then [SensorSent (hil_sensor_args (sensor_data s) (now_sensor env) (composed_mask s))]
        else [])"
    and "Recv b \<notin> set
       (case after_poll s [] env of Done (s', evs) \<Rightarrow> evs | Raised e (s', evs) \<Rightarrow> evs
          | NoReturn \<Rightarrow> [])"
proof -
  let ?s1 = "s\<lparr>last_heartbeat_sent_time := now_record env\<rparr>"
  have h: "heartbeat_step s env =
      Done (?s1, [LogWarn ''Sending heartbeat'',
                  HeartbeatSent MAV_TYPE_GENERIC MAV_AUTOPILOT_INVALID 0 0 0])"
    using nf c ok by (simp add: heartbeat_step_def send_heartbeat_def)
  have m: "composed_mask ?s1 = composed_mask s"
    by (simp add: composed_mask_def)
  obtain s2 evs2 where ss: "send_sensor_msgs ?s1 (now_sensor env) (sensor_ok env) = (s2, evs2)"
    by (cases "send_sensor_msgs ?s1 (now_sensor env) (sensor_ok env)")
  have evs2: "evs2 = LogWarn ''Sending sensor msgs'' #
       (if sensor_ok env
        then [SensorSent (hil_sensor_args (sensor_data s) (now_sensor env) (composed_mask s))]
        else [LogWarn ''Could not send sensor data through mavlink''])"
    using send_sensor_events [of ?s1 "now_sensor env" "sensor_ok env"] c
    by (simp add: ss m)
  note sl = sleep_step_events [of s2 b]
  show "after_poll s [] env \<noteq> NoReturn"
    using sl by (cases "sleep_step s2") (simp_all add: after_poll_def h ss)
  show "filter is_send
       (case after_poll s [] env of Done (s', evs) \<Rightarrow> evs | Raised e (s', evs) \<Rightarrow> evs
          | NoReturn \<Rightarrow> []) =
       HeartbeatSent MAV_TYPE_GENERIC MAV_AUTOPILOT_INVALID 0 0 0 #
       (if sensor_ok env
        then [SensorSent (hil_sensor_args (sensor_data s) (now_sensor env) (composed_mask s))]
        else [])"
    using sl by (cases "sleep_step s2") (simp_all add: after_poll_def h ss evs2)
  show "Recv b \<notin> set
       (case after_poll s [] env of Done (s', evs) \<Rightarrow> evs | Raised e (s', evs) \<Rightarrow> evs
          | NoReturn \<Rightarrow> [])"
    using sl by (cases "sleep_step s2") (simp_all add: after_poll_def h ss evs2)
qed

lemma tick_awaiting_sends:
  assumes nf: "\<not> received_first_hearbeat s"
  shows "Recv b \<notin> set (tick_events s env)"
    and "filter is_send (tick_events s env) =
       (if lockstep_gate s (sched env) = None \<or> connection s = None \<or> \<not> heartbeat_ok env
        then []
        else HeartbeatSent MAV_TYPE_GENERIC MAV_AUTOPILOT_INVALID 0 0 0 #
             (if sensor_ok env
              then [SensorSent (hil_sensor_args (sensor_data s) (now_sensor env)
                      (composed_mask s))]
              else []))"
    and "(mavlink_update_tick s env = NoReturn) = (lockstep_gate s (sched env) = None)"
    and "lockstep_gate s (sched env) \<noteq> None \<and> connection s = None \<longrightarrow>
           (\<exists>r. mavlink_update_tick s env = Raised AttributeError r)"
    and "lockstep_gate s (sched env) \<noteq> None \<and> connection s \<noteq> None \<and> \<not> heartbeat_ok env \<longrightarrow>
           (\<exists>r. mavlink_update_tick s env = Raised SendError r)"
proof -
  note t = tick_awaiting_total [OF nf, of env]
  show "(mavlink_update_tick s env = NoReturn) = (lockstep_gate s (sched env) = None)"
  proof (cases "lockstep_gate s (sched env)")
    case None
    then show ?thesis by (simp add: t)
  next
    case (Some s1)
    note k = lockstep_gate_keeps [OF Some]
    have "\<not> received_first_hearbeat (s1\<lparr>received_imu := False\<rparr>)"
      using nf k(2) by simp
    from after_poll_awaiting(1) [OF this, of env]
    show ?thesis using k(3) by (simp add: t Some)
  qed
  show "lockstep_gate s (sched env) \<noteq> None \<and> connection s = None \<longrightarrow>
           (\<exists>r. mavlink_update_tick s env = Raised AttributeError r)"
    by (auto simp: t)
  show "lockstep_gate s (sched env) \<noteq> None \<and> connection s \<noteq> None \<and> \<not> heartbeat_ok env \<longrightarrow>
           (\<exists>r. mavlink_update_tick s env = Raised SendError r)"
    by (auto simp: t)
  show "Recv b \<notin> set (tick_events s env)"
  proof (cases "lockstep_gate s (sched env)")
    case None
    then show ?thesis by (simp add: tick_events_def t)
  next
    case (Some s1)
    note k = lockstep_gate_keeps [OF Some]
    have nf1: "\<not> received_first_hearbeat (s1\<lparr>received_imu := False\<rparr>)"
      using nf k(2) by simp
    show ?thesis
      using after_poll_awaiting(3) [OF nf1, of env b] k(3)
      by (simp add: tick_events_def t Some)
  qed
  show "filter is_send (tick_events s env) =
       (if lockstep_gate s (sched env) = None \<or> connection s = None \<or> \<not> heartbeat_ok env
        then []
        else HeartbeatSent MAV_TYPE_GENERIC MAV_AUTOPILOT_INVALID 0 0 0 #
             (if sensor_ok env
              then [SensorSent (hil_sensor_args (sensor_data s) (now_sensor env)
                      (composed_mask s))]
              else []))"
  proof (cases "lockstep_gate s (sched env)")
    case None
    then show ?thesis by (simp add: tick_events_def t)
  next
    case (Some s1)
    note k = lockstep_gate_keeps [OF Some]
    have nf1: "\<not> received_first_hearbeat (s1\<lparr>received_imu := False\<rparr>)"
      using nf k(2) by simp
    have m: "composed_mask (s1\<lparr>received_imu := False\<rparr>) = composed_mask s"
      using k(4) by (simp add: composed_mask_def)
    show ?thesis
      using after_poll_awaiting(2) [OF nf1, of env] k(3,4)
      by (simp add: tick_events_def t Some m)
  qed
qed

text \<open>
  Claim C4, amended. In a tick in which the first-heartbeat flag is false the poll returns
  at once and nothing is received. The tick does not skip the sends: unless it stays in
  the lockstep wait (then it sends nothing and does not return), it goes on to the
  heartbeat send, whose condition holds because the flag is false. With no connection, or
  when the heartbeat send fails, the tick raises and has sent nothing; otherwise the
  frames it sends are a heartbeat frame and then, unless the sensor send failed, the
  sensor frame with the current payload and mask.
\<close>

theorem tick_awaiting_peer_polls_nothing_but_sends:
  assumes "\<not> received_first_hearbeat s"
  shows "poll_mavlink_messages s (inbox env) = Done (s, [])
   \<and> Recv b \<notin> set (tick_events s env)
   \<and> filter is_send (tick_events s env) =
       (if lockstep_gate s (sched env) = None \<or> connection s = None \<or> \<not> heartbeat_ok env
        then []
        else HeartbeatSent MAV_TYPE_GENERIC MAV_AUTOPILOT_INVALID 0 0 0 #
             (if sensor_ok env
              then [SensorSent (hil_sensor_args (sensor_data s) (now_sensor env)
                      (composed_mask s))]
              else []))
   \<and> (mavlink_update_tick s env = NoReturn) = (lockstep_gate s (sched env) = None)
   \<and> (lockstep_gate s (sched env) \<noteq> None \<and> connection s = None \<longrightarrow>
           (\<exists>r. mavlink_update_tick s env = Raised AttributeError r))
   \<and> (lockstep_gate s (sched env) \<noteq> None \<and> connection s \<noteq> None \<and> \<not> heartbeat_ok env \<longrightarrow>
           (\<exists>r. mavlink_update_tick s env = Raised SendError r))
   \<and> (mavlink_update_tick s env = Done (s', evs) \<longrightarrow>
        Recv b \<notin> set evs
        \<and> filter is_send evs =
            HeartbeatSent MAV_TYPE_GENERIC MAV_AUTOPILOT_INVALID 0 0 0 #
            (if sensor_ok env
             then [SensorSent (hil_sensor_args (sensor_data s) (now_sensor env)
                     (composed_mask s))]
             else []))"
proof -
  note a = tick_awaiting_sends [OF assms]
  have d: "mavlink_update_tick s env = Done (s', evs) \<longrightarrow>
        Recv b \<notin> set evs
        \<and> filter is_send evs =
            HeartbeatSent MAV_TYPE_GENERIC MAV_AUTOPILOT_INVALID 0 0 0 #
            (if sensor_ok env
             then [SensorSent (hil_sensor_args (sensor_data s) (now_sensor env)
                     (composed_mask s))]
             else [])"
    using tick_before_first_heartbeat [OF assms] by blast
  show ?thesis
    by (intro conjI poll_awaiting [OF assms] a d)
qed


text \<open>
  The running demo object before the peer's heartbeat: with a failing sensor send the tick
  sends the heartbeat alone, with a failing heartbeat send it raises and sends nothing,
  and without a connection it sends nothing.
\<close>

theorem tick_awaiting_peer_polls_nothing_but_sends_witness:
  "filter is_send (tick_events awaiting_peer (quiet_env 1000\<lparr>sensor_ok := False\<rparr>)) =
     [HeartbeatSent 0 8 0 0 0]
   \<and> filter is_send (tick_events awaiting_peer (quiet_env 1000\<lparr>heartbeat_ok := False\<rparr>)) = []
   \<and> (\<exists>r. mavlink_update_tick awaiting_peer (quiet_env 1000\<lparr>heartbeat_ok := False\<rparr>) =
         Raised SendError r)
   \<and> filter is_send (tick_events (awaiting_peer\<lparr>connection := None\<rparr>) (quiet_env 1000)) = []
   \<and> poll_mavlink_messages awaiting_peer [MavMsg ''HEARTBEAT''] = Done (awaiting_peer, [])"
proof -
  have nf: "\<not> received_first_hearbeat awaiting_peer"
    "\<not> received_first_hearbeat (awaiting_peer\<lparr>connection := None\<rparr>)"
    by (simp_all add: awaiting_peer_def demo_interface_def)
  have g: "lockstep_gate awaiting_peer [] = Some awaiting_peer"
    "lockstep_gate (awaiting_peer\<lparr>connection := None\<rparr>) [] =
       Some (awaiting_peer\<lparr>connection := None\<rparr>)"
    "connection awaiting_peer \<noteq> None"
    by (simp_all add: lockstep_gate_def awaiting_peer_def demo_interface_def)
  have a: "filter is_send (tick_events awaiting_peer (quiet_env 1000\<lparr>sensor_ok := False\<rparr>)) =
     [HeartbeatSent 0 8 0 0 0]"
    using tick_awaiting_peer_polls_nothing_but_sends [OF nf(1), of "quiet_env 1000\<lparr>sensor_ok := False\<rparr>", THEN conjunct2,
        THEN conjunct2, THEN conjunct1] g
    by (simp add: quiet_env_def MAV_TYPE_GENERIC_def MAV_AUTOPILOT_INVALID_def)
  have b: "filter is_send (tick_events awaiting_peer (quiet_env 1000\<lparr>heartbeat_ok := False\<rparr>)) = []"
    using tick_awaiting_peer_polls_nothing_but_sends [OF nf(1), of "quiet_env 1000\<lparr>heartbeat_ok := False\<rparr>", THEN conjunct2,
        THEN conjunct2, THEN conjunct1]
    by (simp add: quiet_env_def)
  have c: "\<exists>r. mavlink_update_tick awaiting_peer (quiet_env 1000\<lparr>heartbeat_ok := False\<rparr>) =
         Raised SendError r"
    using tick_awaiting_peer_polls_nothing_but_sends [OF nf(1), of "quiet_env 1000\<lparr>heartbeat_ok := False\<rparr>", THEN conjunct2,
        THEN conjunct2, THEN conjunct2, THEN conjunct2, THEN conjunct2, THEN conjunct1] g
    by (simp add: quiet_env_def)
  have d: "filter is_send (tick_events (awaiting_peer\<lparr>connection := None\<rparr>) (quiet_env 1000)) = []"
    using tick_awaiting_peer_polls_nothing_but_sends [OF nf(2), of "quiet_env 1000", THEN conjunct2, THEN conjunct2, THEN conjunct1]
    by simp
  have e: "poll_mavlink_messages awaiting_peer [MavMsg ''HEARTBEAT''] = Done (awaiting_peer, [])"
    using tick_awaiting_peer_polls_nothing_but_sends [OF nf(1), of "quiet_env 1000\<lparr>inbox := [MavMsg ''HEARTBEAT'']\<rparr>", THEN conjunct1]
    by simp
  from a b c d e show ?thesis by blast
qed

text \<open>The tick of the demo object before the peer's heartbeat sends two frames.\<close>

theorem tick_awaiting_peer_polls_nothing_but_sends_counterexample:
  "received_first_hearbeat awaiting_peer = False
   \<and> filter is_send (tick_events awaiting_peer (quiet_env 1000)) =
       [HeartbeatSent 0 8 0 0 0,
        SensorSent \<lparr>hs_time = 1000, hs_xacc = 0, hs_yacc = 0, hs_zacc = 0,
          hs_xgyro = 0, hs_ygyro = 0, hs_zgyro = 0, hs_xmag = 0, hs_ymag = 0, hs_zmag = 0,
          hs_abs_pressure = Num 0, hs_diff_pressure = 0, hs_pressure_alt = Num 0,
          hs_altitude = - 999, hs_fields_updated = 0\<rparr>]"
  by (simp add: tick_events_def tick_awaiting_first)
     (simp add: awaiting_peer_def demo_interface_def)

lemma send_sensor_failed:
  "send_sensor_msgs s t False =
     (drained s t True,
      [LogWarn ''Sending sensor msgs'', LogWarn ''Could not send sensor data through mavlink''])"
  by (simp add: send_sensor_msgs_def split_beta)

lemma drained_any: "drained s t ok = drained s t True"
  by (simp add: send_sensor_msgs_def split_beta)

lemma heartbeat_step_sensor_ok:
  "heartbeat_step s (env\<lparr>sensor_ok := b\<rparr>) = heartbeat_step s env"
  by (cases "send_heartbeat s (heartbeat_ok env)") (simp_all add: heartbeat_step_def)

lemma after_poll_sensor_ok:
  "forget_events (after_poll s evs (env\<lparr>sensor_ok := b\<rparr>)) =
     forget_events (after_poll s evs env)"
proof (cases "heartbeat_step s env")
  case (Done r)
  obtain s1 evs1 where r: "r = (s1, evs1)" by (cases r)
  have h: "heartbeat_step s (env\<lparr>sensor_ok := b\<rparr>) = Done (s1, evs1)"
    using Done r by (simp add: heartbeat_step_sensor_ok)
  have d: "drained s1 (now_sensor env) b = drained s1 (now_sensor env) (sensor_ok env)"
    by (simp add: send_sensor_msgs_def split_beta)
  show ?thesis
    using Done r h d
    by (simp add: after_poll_def forget_events_def split_beta split: outcome.splits)
next
  case (Raised e r)
  obtain s1 evs1 where r: "r = (s1, evs1)" by (cases r)
  have h: "heartbeat_step s (env\<lparr>sensor_ok := b\<rparr>) = Raised e (s1, evs1)"
    using Raised r by (simp add: heartbeat_step_sensor_ok)
  show ?thesis
    using Raised r h by (simp add: after_poll_def forget_events_def)
next
  case NoReturn
  have h: "heartbeat_step s (env\<lparr>sensor_ok := b\<rparr>) = NoReturn"
    using NoReturn by (simp add: heartbeat_step_sensor_ok)
  show ?thesis
    using NoReturn h by (simp add: after_poll_def forget_events_def)
qed

lemma tick_sensor_ok:
  "forget_events (mavlink_update_tick s (env\<lparr>sensor_ok := b\<rparr>)) =
     forget_events (mavlink_update_tick s env)"
proof (cases "lockstep_gate s (sched env)")
  case None
  then show ?thesis by (simp add: mavlink_update_tick_def)
next
  case (Some s1)
  show ?thesis
  proof (cases "poll_mavlink_messages (s1\<lparr>received_imu := False\<rparr>) (inbox env)")
    case (Done r)
    with Some show ?thesis
      by (cases r) (simp add: mavlink_update_tick_def after_poll_sensor_ok)
  next
    case (Raised e r)
    with Some show ?thesis by (cases r) (simp add: mavlink_update_tick_def)
  next
    case NoReturn
    with Some show ?thesis by (simp add: mavlink_update_tick_def)
  qed
qed

lemma loop_sensor_ok:
  "forget_events (mavlink_update s (map (\<lambda>e. e\<lparr>sensor_ok := b\<rparr>) envs)) =
     forget_events (mavlink_update s envs)"
proof (induction envs arbitrary: s)
  case Nil
  show ?case by simp
next
  case (Cons env envs)
  show ?case
  proof (cases "is_running s")
    case False
    then show ?thesis by simp
  next
    case True
    note t = tick_sensor_ok [where s = s and env = env and b = b]
    show ?thesis
    proof (cases "mavlink_update_tick s env")
      case (Done r)
      obtain s1 evs1 where r: "r = (s1, evs1)" by (cases r)
      from t Done r obtain evs2 where
        d2: "mavlink_update_tick s (env\<lparr>sensor_ok := b\<rparr>) = Done (s1, evs2)"
        by (auto simp: forget_events_def split: outcome.splits)
      have "forget_events (mavlink_update s (map (\<lambda>e. e\<lparr>sensor_ok := b\<rparr>) (env # envs))) =
          forget_events (mavlink_update s1 (map (\<lambda>e. e\<lparr>sensor_ok := b\<rparr>) envs))"
        using True d2 by (simp add: forget_events_def split: outcome.splits)
      moreover have "forget_events (mavlink_update s (env # envs)) =
          forget_events (mavlink_update s1 envs)"
        using True Done r by (simp add: forget_events_def split: outcome.splits)
      ultimately show ?thesis using Cons.IH [of s1] by simp
    next
      case (Raised e r)
      obtain s1 evs1 where r: "r = (s1, evs1)" by (cases r)
      from t Raised r obtain evs2 where
        "mavlink_update_tick s (env\<lparr>sensor_ok := b\<rparr>) = Raised e (s1, evs2)"
        by (auto simp: forget_events_def split: outcome.splits)
      with True Raised r show ?thesis
        by (simp add: forget_events_def)
    next
      case NoReturn
      with t have "mavlink_update_tick s (env\<lparr>sensor_ok := b\<rparr>) = NoReturn"
        by (auto simp: forget_events_def split: outcome.splits)
      with True NoReturn show ?thesis by simp
    qed
  qed
qed

text \<open>
  Claim C7. A sensor send that fails ends in the warning and the same state as a send that
  succeeds: the four flags are cleared, so the next drain composes mask 0. The tick and the
  loop return, raise or keep running exactly as they do when the send succeeds, with the
  same state.
\<close>

theorem sensor_send_failure_absorbed:
  "send_sensor_msgs s t False =
     (drained s t True,
      [LogWarn ''Sending sensor msgs'', LogWarn ''Could not send sensor data through mavlink''])
   \<and> dirty_flags (drained s t False) = (False, False, False, False)
   \<and> composed_mask (drained s t False) = 0
   \<and> forget_events (mavlink_update_tick s (env\<lparr>sensor_ok := False\<rparr>)) =
       forget_events (mavlink_update_tick s (env\<lparr>sensor_ok := True\<rparr>))
   \<and> forget_events (mavlink_update s (map (\<lambda>e. e\<lparr>sensor_ok := False\<rparr>) envs)) =
       forget_events (mavlink_update s (map (\<lambda>e. e\<lparr>sensor_ok := True\<rparr>) envs))"
proof -
  have flags: "dirty_flags (drained s t False) = (False, False, False, False)"
    by (simp add: dirty_flags_def send_sensor_state drain_clears)
  have zero: "composed_mask (drained s t False) = 0"
    by (simp add: composed_mask_def send_sensor_state drained_mask_zero)
  have tick: "forget_events (mavlink_update_tick s (env\<lparr>sensor_ok := False\<rparr>)) =
       forget_events (mavlink_update_tick s (env\<lparr>sensor_ok := True\<rparr>))"
    by (simp only: tick_sensor_ok)
  have loop: "forget_events (mavlink_update s (map (\<lambda>e. e\<lparr>sensor_ok := False\<rparr>) envs)) =
       forget_events (mavlink_update s (map (\<lambda>e. e\<lparr>sensor_ok := True\<rparr>) envs))"
    by (simp only: loop_sensor_ok)
  show ?thesis
    by (intro conjI send_sensor_failed flags zero tick loop)
qed

theorem sensor_send_failure_absorbed_witness:
  "send_sensor_msgs (snd (update_imu_data imu_sample streaming)) 1000 False =
     (drained (snd (update_imu_data imu_sample streaming)) 1000 True,
      [LogWarn ''Sending sensor msgs'', LogWarn ''Could not send sensor data through mavlink''])
   \<and> composed_mask (snd (update_imu_data imu_sample streaming)) = 63
   \<and> composed_mask (drained (snd (update_imu_data imu_sample streaming)) 1000 False) = 0
   \<and> forget_events (mavlink_update_tick streaming (quiet_env 1000\<lparr>sensor_ok := False\<rparr>)) =
       Done (streaming\<lparr>last_heartbeat_sent_time := 1000\<rparr>)"
proof -
  note w1 = sensor_send_failure_absorbed
    [where s = "snd (update_imu_data imu_sample streaming)" and t = 1000]
  note w2 = sensor_send_failure_absorbed [where s = streaming and env = "quiet_env 1000"]
  have q: "quiet_env 1000\<lparr>sensor_ok := True\<rparr> = quiet_env 1000"
    by (simp add: quiet_env_def)
  have m: "composed_mask (snd (update_imu_data imu_sample streaming)) = 63"
    by (simp add: composed_mask_def imu_sample_ok drain_mask flag_mask_def streaming_def
        demo_interface_def SensorMsg_def)
  from w2 have t: "forget_events (mavlink_update_tick streaming (quiet_env 1000\<lparr>sensor_ok := False\<rparr>)) =
       Done (streaming\<lparr>last_heartbeat_sent_time := 1000\<rparr>)"
    unfolding q tick_streaming_first by (simp add: forget_events_def)
  from w1 m t show ?thesis by blast
qed

subsection \<open>Stop and start\<close>

lemma demo_constructed:
  "init_interface ''udpin:localhost:14550'' 4 True demo_world =
     Some (demo_interface, demo_world\<lparr>next_conn := 1\<rparr>)"
  by (simp add: init_interface_def mavlink_connection_def demo_world_def demo_interface_def
      numeral_eq_Suc)

lemma streaming_reached:
  "start_stream demo_interface (demo_world\<lparr>next_conn := 1\<rparr>) =
     Done (demo_interface\<lparr>is_running := True, update_thread := Created,
             heartbeat_threads := 1\<rparr>, demo_world\<lparr>next_conn := 1\<rparr>)"
  "wait_for_first_hearbeat
     (demo_interface\<lparr>is_running := True, update_thread := Created, heartbeat_threads := 1\<rparr>)
     True =
     Done (streaming,
       [LogWarn ''Waiting for first hearbeat'', LogWarn ''Received first hearbeat''])"
  by (simp_all add: start_stream_def wait_for_first_hearbeat_def streaming_def
      demo_interface_def)

lemma start_stream_reopens:
  assumes "\<not> is_running s" "connection s = None" "can_open w (connection_port s)"
  shows "start_stream s w =
     Done (s\<lparr>is_running := True, update_thread := Created,
             heartbeat_threads := Suc (heartbeat_threads s),
             connection := Some \<lparr>conn_id = next_conn w, conn_endpoint = connection_port s\<rparr>,
             received_first_imu := False, received_first_actuator := False,
             received_imu := False, received_actuator := False,
             received_first_hearbeat := False, last_heartbeat_sent_time := 0\<rparr>,
           w\<lparr>next_conn := Suc (next_conn w)\<rparr>)"
  using assms
  by (simp add: start_stream_def re_initialize_interface_def mavlink_connection_def)

lemma wired_refl: "wired s s"
  by (simp add: wired_def)

lemma wired_trans: "wired s s1 \<Longrightarrow> wired s1 s2 \<Longrightarrow> wired s s2"
  by (auto simp: wired_def)

lemma wired_fields:
  "wired s (s\<lparr>received_imu := a\<rparr>)"
  "wired s (s\<lparr>received_actuator := b\<rparr>)"
  "wired s (s\<lparr>last_heartbeat_sent_time := t\<rparr>)"
  "wired s (s\<lparr>sensor_data := m\<rparr>)"
  "wired s (s\<lparr>is_running := False\<rparr>)"
  by (simp_all add: wired_def)

lemma env_step_wired: "wired s (env_step a s)"
  by (cases a) (simp_all add: wired_def update_imu_def)

lemma fold_env_step_wired: "wired s (fold env_step acts s)"
proof (induction acts arbitrary: s)
  case Nil
  show ?case by (simp add: wired_refl)
next
  case (Cons a acts)
  show ?case
    using wired_trans [OF env_step_wired [of s a] Cons [of "env_step a s"]] by simp
qed

lemma spin_wait_wired: "spin_wait s acts = Some s' \<Longrightarrow> wired s s'"
proof (induction acts arbitrary: s)
  case Nil
  then show ?case by (auto simp: wired_refl split: if_splits)
next
  case (Cons a acts)
  show ?case
  proof (cases "\<not> received_imu s \<and> is_running s")
    case True
    with Cons.prems have "spin_wait (env_step a s) acts = Some s'" by simp
    from wired_trans [OF env_step_wired Cons.IH [OF this]] show ?thesis .
  next
    case False
    with Cons.prems show ?thesis by (auto simp: wired_refl)
  qed
qed

lemma lockstep_gate_wired: "lockstep_gate s acts = Some s' \<Longrightarrow> wired s s'"
  using spin_wait_wired [of s acts s']
  by (auto simp: lockstep_gate_def wired_refl split: if_splits)

lemma poll_wired: "wired s (fst (state_after (poll_mavlink_messages s msgs) (s, [])))"
  by (auto simp: poll_mavlink_messages_def state_after_def Let_def wired_def
      split: option.splits)

lemma heartbeat_step_wired: "wired s (fst (state_after (heartbeat_step s env) (s, [])))"
  by (auto simp: heartbeat_step_def send_heartbeat_def state_after_def wired_def)

lemma send_sensor_wired: "wired s (fst (send_sensor_msgs s t ok))"
  by (simp add: send_sensor_msgs_def split_beta wired_def)

lemma sleep_from_wired: "wired s (fst (state_after (sleep_from s env) (s, [])))"
  using fold_env_step_wired [of s "during_sleep env"]
  by (auto simp: sleep_from_def state_after_def wired_refl split: outcome.splits)

lemma sensor_from_wired: "wired s (fst (state_after (sensor_from s env) (s, [])))"
proof -
  obtain s2 evs2 where ss: "send_sensor_msgs s (now_sensor env) (sensor_ok env) = (s2, evs2)"
    by (cases "send_sensor_msgs s (now_sensor env) (sensor_ok env)")
  have a: "wired s s2"
    using send_sensor_wired [of s "now_sensor env" "sensor_ok env"] by (simp add: ss)
  have b: "wired s2 (fst (state_after (sleep_from s2 env) (s2, [])))"
    by (rule sleep_from_wired)
  show ?thesis
    using a wired_trans [OF a b]
    by (auto simp: sensor_from_def ss state_after_def wired_refl split: outcome.splits)
qed

lemma after_poll_sensor_from:
  "after_poll s evs env =
     (case heartbeat_step s env of
        NoReturn \<Rightarrow> NoReturn
      | Raised e (s1, evs1) \<Rightarrow> Raised e (s1, evs @ evs1)
      | Done (s1, evs1) \<Rightarrow>
          (case sensor_from s1 env of
             NoReturn \<Rightarrow> NoReturn
           | Raised e (s3, evs3) \<Rightarrow> Raised e (s3, evs @ evs1 @ evs3)
           | Done (s3, evs3) \<Rightarrow> Done (s3, evs @ evs1 @ evs3)))"
  by (auto simp: after_poll_def sensor_from_def sleep_from_def split_beta
      split: outcome.splits prod.splits)

lemma after_poll_wired: "wired s (fst (state_after (after_poll s evs env) (s, [])))"
proof (cases "heartbeat_step s env")
  case NoReturn
  then show ?thesis by (simp add: after_poll_sensor_from state_after_def wired_refl)
next
  case (Raised e r)
  then show ?thesis
    using heartbeat_step_wired [of s env]
    by (cases r) (simp add: after_poll_sensor_from state_after_def)
next
  case (Done r)
  obtain s1 evs1 where r: "r = (s1, evs1)" by (cases r)
  have a: "wired s s1"
    using heartbeat_step_wired [of s env] by (simp add: Done r state_after_def)
  have b: "wired s1 (fst (state_after (sensor_from s1 env) (s1, [])))"
    by (rule sensor_from_wired)
  show ?thesis
    using a wired_trans [OF a b]
    by (auto simp: after_poll_sensor_from Done r state_after_def wired_refl
        split: outcome.splits)
qed

lemma from_poll_wired:
  "wired s (fst (state_after
     (case poll_mavlink_messages s (inbox env) of
        NoReturn \<Rightarrow> NoReturn
      | Raised e (s2, evs) \<Rightarrow> Raised e (s2, evs)
      | Done (s2, evs) \<Rightarrow> after_poll s2 evs env) (s, [])))"
proof (cases "poll_mavlink_messages s (inbox env)")
  case NoReturn
  then show ?thesis by (simp add: state_after_def wired_refl)
next
  case (Raised e r)
  then show ?thesis
    using poll_wired [of s "inbox env"] by (cases r) (simp add: state_after_def)
next
  case (Done r)
  obtain s2 evs where r: "r = (s2, evs)" by (cases r)
  have a: "wired s s2"
    using poll_wired [of s "inbox env"] by (simp add: Done r state_after_def)
  have b: "wired s2 (fst (state_after (after_poll s2 evs env) (s2, [])))"
    by (rule after_poll_wired)
  show ?thesis
    using a wired_trans [OF a b]
    by (auto simp: Done r state_after_def wired_refl split: outcome.splits)
qed

lemma tick_wired: "wired s (fst (state_after (mavlink_update_tick s env) (s, [])))"
proof (cases "lockstep_gate s (sched env)")
  case None
  then show ?thesis by (simp add: mavlink_update_tick_def state_after_def wired_refl)
next
  case (Some s1)
  have a: "wired s (s1\<lparr>received_imu := False\<rparr>)"
    using wired_trans [OF lockstep_gate_wired [OF Some] wired_fields(1)] .
  note b = from_poll_wired [of "s1\<lparr>received_imu := False\<rparr>" env]
  have "mavlink_update_tick s env =
     (case poll_mavlink_messages (s1\<lparr>received_imu := False\<rparr>) (inbox env) of
        NoReturn \<Rightarrow> NoReturn
      | Raised e (s2, evs) \<Rightarrow> Raised e (s2, evs)
      | Done (s2, evs) \<Rightarrow> after_poll s2 evs env)"
    by (simp add: mavlink_update_tick_def Some)
  then show ?thesis
    using a wired_trans [OF a b]
    by (auto simp: state_after_def wired_refl split: outcome.splits)
qed

lemma resume_tick_wired: "wired s (fst (state_after (resume_tick pt s env) (s, [])))"
proof (cases pt)
  case AtLoopTest
  then show ?thesis by (simp add: state_after_def wired_refl)
next
  case AtGate
  then show ?thesis by (simp add: tick_wired)
next
  case AtPoll
  have a: "wired s (s\<lparr>received_imu := False\<rparr>)" by (rule wired_fields)
  note b = from_poll_wired [of "s\<lparr>received_imu := False\<rparr>" env]
  show ?thesis
    using a wired_trans [OF a b] AtPoll
    by (auto simp: state_after_def wired_refl split: outcome.splits)
next
  case AtHeartbeat
  then show ?thesis by (simp add: after_poll_wired)
next
  case AtSensor
  then show ?thesis by (simp add: sensor_from_wired)
next
  case AtSleep
  then show ?thesis by (simp add: sleep_from_wired)
qed


lemma join_started:
  assumes "update_thread s = Started" and "\<not> is_running s"
    and "resume_tick pt s env \<noteq> NoReturn"
  shows "\<exists>s1 evs. join_update_thread s pt env = Done (s1\<lparr>update_thread := Finished\<rparr>, evs)
      \<and> wired s s1"
proof (cases "resume_tick pt s env")
  case NoReturn
  with assms(3) show ?thesis by simp
next
  case (Raised e r)
  obtain s1 evs where r: "r = (s1, evs)" by (cases r)
  have "wired s s1"
    using resume_tick_wired [of s pt env] by (simp add: Raised r state_after_def)
  then show ?thesis
    using assms(1)
    by (intro exI [of _ s1] exI [of _ evs]) (simp add: join_update_thread_def Raised r)
next
  case (Done r)
  obtain s1 evs where r: "r = (s1, evs)" by (cases r)
  have w: "wired s s1"
    using resume_tick_wired [of s pt env] by (simp add: Done r state_after_def)
  then have "\<not> is_running s1"
    using assms(2) by (simp add: wired_def)
  then have "mavlink_update s1 [] = Done (s1, [])" by simp
  then show ?thesis
    using assms(1) w
    by (intro exI [of _ s1] exI [of _ evs]) (simp add: join_update_thread_def Done r)
qed

lemma stop_stream_running:
  assumes "is_running s" and "update_thread s = Started" and "connection s = Some c"
    and "resume_tick pt (s\<lparr>is_running := False\<rparr>) env \<noteq> NoReturn"
  shows "\<exists>s1. stop_stream s w pt env =
           Done (s1, w\<lparr>closed_conns := conn_id c # closed_conns w\<rparr>)
      \<and> connection s1 = None \<and> \<not> is_running s1 \<and> connection_port s1 = connection_port s"
proof -
  from join_started [of "s\<lparr>is_running := False\<rparr>" pt env] assms(2,4)
  obtain s1 evs where
    j: "join_update_thread (s\<lparr>is_running := False\<rparr>) pt env =
          Done (s1\<lparr>update_thread := Finished\<rparr>, evs)"
    and w: "wired (s\<lparr>is_running := False\<rparr>) s1"
    by auto
  from w assms(3) have c: "connection s1 = Some c" "\<not> is_running s1"
    "connection_port s1 = connection_port s"
    by (simp_all add: wired_def)
  show ?thesis
    using assms(1) c by (simp add: stop_stream_def j)
qed

lemma stop_stream_wiring:
  assumes "wiring_ok port (s, w)"
  shows "wiring_ok port (state_after (stop_stream s w pt env) (s, w))"
proof (cases "is_running s")
  case False
  then show ?thesis using assms by (simp add: stop_stream_def state_after_def)
next
  case True
  let ?s0 = "s\<lparr>is_running := False\<rparr>"
  have ok0: "wiring_ok port (?s0, w)"
    using assms by (auto simp: wiring_ok_def split: option.splits)
  have step: "\<And>s1. wired ?s0 s1 \<Longrightarrow> wiring_ok port (s1, w) \<and> \<not> is_running s1"
    using ok0 by (auto simp: wiring_ok_def wired_def split: option.splits)
  show ?thesis
  proof (cases "update_thread ?s0")
    case NoThread
    then show ?thesis
      using True ok0 by (simp add: stop_stream_def join_update_thread_def state_after_def)
  next
    case Created
    then show ?thesis
      using True ok0 by (simp add: stop_stream_def join_update_thread_def state_after_def)
  next
    case Finished
    then show ?thesis
      using True ok0
      by (auto simp: stop_stream_def join_update_thread_def state_after_def wiring_ok_def
          split: option.splits)
  next
    case Started
    show ?thesis
    proof (cases "resume_tick pt ?s0 env = NoReturn")
      case nr: True
      then show ?thesis
        using True Started assms
        by (simp add: stop_stream_def join_update_thread_def state_after_def)
    next
      case False
      from join_started [of ?s0 pt env] Started False
      obtain s1 evs where
        j: "join_update_thread ?s0 pt env = Done (s1\<lparr>update_thread := Finished\<rparr>, evs)"
        and w: "wired ?s0 s1"
        by auto
      from step [OF w] show ?thesis
        using True
        by (auto simp: stop_stream_def j state_after_def wiring_ok_def split: option.splits)
    qed
  qed
qed

lemma start_stream_wiring:
  assumes "wiring_ok port (s, w)"
  shows "wiring_ok port (state_after (start_stream s w) (s, w))"
  using assms
  by (auto simp: start_stream_def re_initialize_interface_def mavlink_connection_def
      state_after_def wiring_ok_def Let_def split: option.splits)

lemma on_sensor_data_snd:
  "snd (on_sensor_data body s) = s\<lparr>sensor_data := snd (body (sensor_data s))\<rparr>"
  by (simp add: on_sensor_data_def split_beta)

lemma updates_wired:
  "wired s (snd (apply_update u s))"
  "wired s (snd (update_gps_data d s))"
  "wired s (update_imu x s)"
  by (cases u; simp add: update_imu_data_def update_mag_data_def update_bar_data_def
      update_press_data_def update_gps_data_def on_sensor_data_snd wired_def update_imu_def)+

lemma wired_wiring: "wiring_ok port (s, w) \<Longrightarrow> wired s s' \<Longrightarrow> wiring_ok port (s', w)"
  by (auto simp: wiring_ok_def wired_def split: option.splits)

lemma wait_wiring:
  assumes "wiring_ok port (s, w)"
  shows "wiring_ok port (fst (state_after (wait_for_first_hearbeat s arrives) (s, [])), w)"
  using assms
  by (auto simp: wait_for_first_hearbeat_def state_after_def wiring_ok_def Let_def
      split: option.splits thread_status.splits)

lemma run_call_wiring:
  assumes "wiring_ok port r"
  shows "wiring_ok port (run_call c r)"
proof -
  obtain s w where r: "r = (s, w)" by (cases r)
  note ok = assms [unfolded r]
  show ?thesis
  proof (cases c)
    case (CallUpdate u)
    then show ?thesis using wired_wiring [OF ok updates_wired(1)] by (simp add: r)
  next
    case (CallUpdateGps d)
    then show ?thesis using wired_wiring [OF ok updates_wired(2)] by (simp add: r)
  next
    case CallUpdateImu
    then show ?thesis using wired_wiring [OF ok updates_wired(3)] by (simp add: r)
  next
    case CallStart
    then show ?thesis using start_stream_wiring [OF ok] by (simp add: r)
  next
    case (CallStop pt env)
    then show ?thesis using stop_stream_wiring [OF ok] by (simp add: r)
  next
    case (HeartbeatArrival arrives)
    then show ?thesis using wait_wiring [OF ok] by (simp add: r)
  next
    case (ThreadTick env)
    then show ?thesis using wired_wiring [OF ok tick_wired] by (simp add: r)
  next
    case (ThreadWrite a)
    then show ?thesis using wired_wiring [OF ok env_step_wired] by (simp add: r)
  next
    case (OtherOpen p)
    then show ?thesis
      using ok
      by (auto simp: r mavlink_connection_def wiring_ok_def split: option.splits)
  qed
qed

lemma run_calls_wiring: "wiring_ok port r \<Longrightarrow> wiring_ok port (run_calls calls r)"
  unfolding run_calls_def
  by (induction calls arbitrary: r) (simp_all add: run_call_wiring)

lemma init_wiring: "init_interface port n lockstep w0 = Some r0 \<Longrightarrow> wiring_ok port r0"
  by (auto simp: init_interface_def mavlink_connection_def wiring_ok_def
      split: if_splits)

text \<open>
  Claim C5, amended. Take an object made by the constructor and driven by any sequence of
  calls of its methods, heartbeat arrivals, ticks of its update thread, writes of other
  threads and connections opened by other objects. When \<^verbatim>\<open>stop_stream\<close> is called while
  the object is running and its update thread has been started, the thread gets through
  the iteration it is in (it is not held in the blocking receive), and the endpoint can be
  opened, then \<^verbatim>\<open>stop_stream\<close> followed by \<^verbatim>\<open>start_stream\<close> returns with the four
  lockstep flags and the first-heartbeat flag false, the old connection closed, and a new
  connection opened on the endpoint string of the constructor, of an identity different
  from the old one's.
\<close>

theorem stop_then_start_fresh_when_streaming:
  assumes "init_interface port n lockstep w0 = Some r0"
    and "run_calls calls r0 = (s, w)"
    and "is_running s" and "update_thread s = Started"
    and "resume_tick pt (s\<lparr>is_running := False\<rparr>) env \<noteq> NoReturn"
    and "can_open w port"
  shows "\<exists>c s2 w2.
      connection s = Some c \<and> conn_endpoint c = port
    \<and> stop_then_start s w pt env = Done (s2, w2)
    \<and> \<not> received_first_imu s2 \<and> \<not> received_first_actuator s2
    \<and> \<not> received_imu s2 \<and> \<not> received_actuator s2
    \<and> \<not> received_first_hearbeat s2
    \<and> connection s2 = Some \<lparr>conn_id = next_conn w, conn_endpoint = port\<rparr>
    \<and> conn_id c \<noteq> next_conn w
    \<and> closed_conns w2 = conn_id c # closed_conns w
    \<and> is_running s2 \<and> update_thread s2 = Created"
proof -
  have ok: "wiring_ok port (s, w)"
    using run_calls_wiring [OF init_wiring [OF assms(1)], of calls] assms(2) by simp
  with assms(3) obtain c where
    c: "connection s = Some c" "conn_id c < next_conn w" "conn_endpoint c = port"
    and port: "connection_port s = port"
    by (auto simp: wiring_ok_def split: option.splits)
  from stop_stream_running [OF assms(3,4) c(1) assms(5), of w]
  obtain s1 where
    stop: "stop_stream s w pt env = Done (s1, w\<lparr>closed_conns := conn_id c # closed_conns w\<rparr>)"
    and s1: "connection s1 = None" "\<not> is_running s1" "connection_port s1 = connection_port s"
    by auto
  have start: "start_stream s1 (w\<lparr>closed_conns := conn_id c # closed_conns w\<rparr>) =
     Done (s1\<lparr>is_running := True, update_thread := Created,
             heartbeat_threads := Suc (heartbeat_threads s1),
             connection := Some \<lparr>conn_id = next_conn w, conn_endpoint = port\<rparr>,
             received_first_imu := False, received_first_actuator := False,
             received_imu := False, received_actuator := False,
             received_first_hearbeat := False, last_heartbeat_sent_time := 0\<rparr>,
           w\<lparr>next_conn := Suc (next_conn w), closed_conns := conn_id c # closed_conns w\<rparr>)"
    using assms(6) s1 port
    by (subst start_stream_reopens) simp_all
  show ?thesis
    using c by (simp add: stop_then_start_def stop start)
qed


lemma demo_history:
  "run_calls [CallStart, HeartbeatArrival True, CallUpdateImu]
      (demo_interface, demo_world\<lparr>next_conn := 1\<rparr>) =
     (update_imu () streaming, demo_world\<lparr>next_conn := 1\<rparr>)"
  by (simp add: run_calls_def streaming_reached state_after_def del: One_nat_def)

lemma demo_in_flight:
  "resume_tick AtGate (update_imu () streaming\<lparr>is_running := False\<rparr>) (quiet_env 1000) =
     Done (streaming\<lparr>is_running := False, last_heartbeat_sent_time := 1000\<rparr>,
       [Recv False, LogMsg None,
        LogWarn ''Sending heartbeat'', HeartbeatSent 0 8 0 0 0,
        LogWarn ''Sending sensor msgs'',
        SensorSent \<lparr>hs_time = 1000, hs_xacc = 0, hs_yacc = 0, hs_zacc = 0,
          hs_xgyro = 0, hs_ygyro = 0, hs_zgyro = 0, hs_xmag = 0, hs_ymag = 0, hs_zmag = 0,
          hs_abs_pressure = Num 0, hs_diff_pressure = 0, hs_pressure_alt = Num 0,
          hs_altitude = - 999, hs_fields_updated = 0\<rparr>,
        Sleep (1152921504606847 / 288230376151711744)])"
  by (simp add: tick_defs update_imu_def streaming_def demo_interface_def SensorMsg_def
      sleep_250 elapsed_samples)

text \<open>
  The demo object after \<^verbatim>\<open>start_stream\<close>, the peer's heartbeat and \<^verbatim>\<open>update_imu\<close>; the
  update thread stands at the lockstep gate when \<^verbatim>\<open>stop_stream\<close> is called and sends a
  heartbeat and a sensor frame before it ends.
\<close>

theorem stop_then_start_fresh_when_streaming_witness:
  "init_interface ''udpin:localhost:14550'' 4 True demo_world =
     Some (demo_interface, demo_world\<lparr>next_conn := 1\<rparr>)
   \<and> run_calls [CallStart, HeartbeatArrival True, CallUpdateImu]
        (demo_interface, demo_world\<lparr>next_conn := 1\<rparr>) =
       (update_imu () streaming, demo_world\<lparr>next_conn := 1\<rparr>)
   \<and> received_imu (update_imu () streaming)
   \<and> connection (update_imu () streaming) =
       Some \<lparr>conn_id = 0, conn_endpoint = ''udpin:localhost:14550''\<rparr>
   \<and> (\<exists>s2 w2.
        stop_then_start (update_imu () streaming) (demo_world\<lparr>next_conn := 1\<rparr>) AtGate
          (quiet_env 1000) = Done (s2, w2)
      \<and> \<not> received_first_imu s2 \<and> \<not> received_first_actuator s2
      \<and> \<not> received_imu s2 \<and> \<not> received_actuator s2 \<and> \<not> received_first_hearbeat s2
      \<and> connection s2 = Some \<lparr>conn_id = 1, conn_endpoint = ''udpin:localhost:14550''\<rparr>
      \<and> closed_conns w2 = [0])"
proof -
  have run: "is_running (update_imu () streaming)"
    "update_thread (update_imu () streaming) = Started"
    "can_open (demo_world\<lparr>next_conn := 1\<rparr>) ''udpin:localhost:14550''"
    by (simp_all add: update_imu_def streaming_def demo_interface_def demo_world_def)
  have fl: "resume_tick AtGate (update_imu () streaming\<lparr>is_running := False\<rparr>) (quiet_env 1000)
      \<noteq> NoReturn"
    unfolding demo_in_flight by simp
  have c: "connection (update_imu () streaming) =
       Some \<lparr>conn_id = 0, conn_endpoint = ''udpin:localhost:14550''\<rparr>"
    "received_imu (update_imu () streaming)"
    by (simp_all add: update_imu_def streaming_def demo_interface_def)
  have w: "next_conn (demo_world\<lparr>next_conn := 1\<rparr>) = 1"
    "closed_conns (demo_world\<lparr>next_conn := 1\<rparr>) = []"
    by (simp_all add: demo_world_def)
  from stop_then_start_fresh_when_streaming [OF demo_constructed demo_history run(1,2) fl run(3)]
  have "\<exists>s2 w2.
        stop_then_start (update_imu () streaming) (demo_world\<lparr>next_conn := 1\<rparr>) AtGate
          (quiet_env 1000) = Done (s2, w2)
      \<and> \<not> received_first_imu s2 \<and> \<not> received_first_actuator s2
      \<and> \<not> received_imu s2 \<and> \<not> received_actuator s2 \<and> \<not> received_first_hearbeat s2
      \<and> connection s2 = Some \<lparr>conn_id = 1, conn_endpoint = ''udpin:localhost:14550''\<rparr>
      \<and> closed_conns w2 = [0]"
    unfolding c w by auto
  with demo_constructed demo_history c show ?thesis by blast
qed

text \<open>
  On an interface that is not running \<^verbatim>\<open>stop_stream\<close> returns at once, so
  \<^verbatim>\<open>start_stream\<close> finds the connection in place and resets nothing: after the
  constructor and \<^verbatim>\<open>update_imu\<close>, the flag \<^verbatim>\<open>_received_imu\<close> is still true and the connection
  is the constructor's.
\<close>

theorem stop_then_start_fresh_when_streaming_counterexample:
  "init_interface ''udpin:localhost:14550'' 4 True demo_world =
     Some (demo_interface, demo_world\<lparr>next_conn := 1\<rparr>)
   \<and> stop_then_start (update_imu () demo_interface) (demo_world\<lparr>next_conn := 1\<rparr>)
        AtLoopTest (quiet_env 1000) =
     Done (demo_interface\<lparr>received_imu := True, is_running := True, update_thread := Created,
             heartbeat_threads := 1\<rparr>,
           demo_world\<lparr>next_conn := 1\<rparr>)
   \<and> received_imu (demo_interface\<lparr>received_imu := True, is_running := True,
        update_thread := Created, heartbeat_threads := 1\<rparr>)
   \<and> connection (demo_interface\<lparr>received_imu := True, is_running := True,
        update_thread := Created, heartbeat_threads := 1\<rparr>) = connection demo_interface"
  by (simp add: demo_constructed)
     (simp add: stop_then_start_def stop_stream_def start_stream_def update_imu_def
      demo_interface_def)

end
